theory Spec2Isabelle
  imports Main "HOL-Library.Word"
begin

section \<open>The output history of libfizmo (src/interpreter/history.c)\<close>

text \<open>
  The history is a circular buffer of \<open>z_ucs\<close> code units with in-band metadata.
  The C code works with pointers into one allocation; here every pointer into the
  buffer is its offset from \<open>z_history_buffer_start\<close> (an \<open>int\<close>, since the code
  decrements a pointer before it tests it against the start), and a pointer that may be
  NULL is an \<open>int option\<close>. The buffer itself is the list of the allocated cells: the
  \<open>z_history_buffer_size\<close> cells of the history and the guard cell behind them; the
  empty list is the NULL buffer of a history that has not allocated yet. A \<open>realloc\<close>
  keeps the offsets, and two pointers are equal when their offsets are.

  Every loop of the code that is not bounded by the shape of its data takes fuel: the
  model tests the loop condition as the code does, and an iteration that finds no fuel
  left ends the call with \<open>Out_of_fuel\<close>.
\<close>

subsection \<open>Types, constants and results\<close>

text \<open>
  The headers \<open>types.h\<close> and \<open>history.h\<close> are not among the sources. A code unit
  \<open>z_ucs\<close> is an unsigned 32-bit integer here; \<open>z_font\<close>, \<open>z_style\<close> and
  \<open>z_colour\<close> are \<open>int16_t\<close>, the type that \<open>store_metadata_in_history\<close>
  demands of its parameters, and their values are kept as ints in that range. The counters
  of wrap-arounds are unsigned 32-bit integers, \<open>size_t\<close> and \<open>long\<close> have 64 bits.
\<close>

type_synonym z_ucs = "32 word"

text \<open>
  Every way in which a call does not return normally: the two messages with which the
  code calls \<open>i18n_translate_and_exit\<close>, a read or write outside the allocation (or
  through NULL), a division by zero, and a loop that did not finish within the fuel.
\<close>

datatype error =
    INVALID_PARAMETER_TYPE string
  | HISTORYOUTPUT_NO_LONGER_VALID
  | Out_of_bounds
  | Division_by_zero
  | Out_of_fuel

text \<open>
  The header \<open>history.h\<close> and the platform are parameters of the model: the four
  metadata type codes and the state block size, whether the global
  \<open>paragraph_removal_function\<close> is set, whether \<open>realloc\<close> to a given number of
  code units succeeds, the indeterminate content of a newly allocated cell, and the byte
  order (\<open>memcpy\<close> counts bytes).
\<close>

record env =
  HISTORY_METADATA_TYPE_FONT :: int
  HISTORY_METADATA_TYPE_STYLE :: int
  HISTORY_METADATA_TYPE_COLOUR :: int
  HISTORY_METADATA_TYPE_PARAGRAPHATTRIBUTE :: int
  Z_HISTORY_METADATA_STATE_BLOCK_SIZE :: int
  paragraph_removal_function :: bool
  realloc_succeeds :: "nat \<Rightarrow> bool"
  fresh_memory :: "nat \<Rightarrow> z_ucs"
  little_endian :: bool

definition HISTORY_METADATA_ESCAPE :: z_ucs where
  \<comment> \<open>Modelled from the spec: \<open>history.h\<close> is missing; the escape code unit has value 0.\<close>
  "HISTORY_METADATA_ESCAPE = 0"

definition HISTORY_METADATA_DATA_OFFSET :: int where
  \<comment> \<open>Modelled from the spec: \<open>history.h\<close> is missing; parameters are stored as value + 13.\<close>
  "HISTORY_METADATA_DATA_OFFSET = 13"

definition Z_COLOUR_UNDEFINED :: int where
  \<comment> \<open>Modelled from the spec: \<open>types.h\<close> is missing; -2 denotes the undefined colour.\<close>
  "Z_COLOUR_UNDEFINED = - 2"

definition Z_UCS_NEWLINE :: z_ucs where
  \<comment> \<open>Modelled from the spec: \<open>z_ucs.h\<close> is missing; the newline is the character LF,
      which the code also writes as the literal.\<close>
  "Z_UCS_NEWLINE = 10"

definition ucs_of_int :: "int \<Rightarrow> z_ucs" where
  \<comment> \<open>the conversion \<open>(z_ucs)x\<close> of an int\<close>
  "ucs_of_int x = word_of_int x"

definition int_of_ucs :: "z_ucs \<Rightarrow> int" where
  \<comment> \<open>the conversion \<open>(int)c\<close> of a code unit\<close>
  "int_of_ucs c = sint c"

definition int16_of_int :: "int \<Rightarrow> int" where
  \<comment> \<open>the conversion to \<open>int16_t\<close>, the type of a metadata parameter and of
      \<open>z_font\<close>, \<open>z_style\<close> and \<open>z_colour\<close>\<close>
  "int16_of_int x = sint (word_of_int x :: 16 word)"

definition int16_of_ucs :: "z_ucs \<Rightarrow> int" where
  "int16_of_ucs c = sint (ucast c :: 16 word)"

definition size_t_of_int :: "int \<Rightarrow> int" where
  \<comment> \<open>a pointer difference returned as \<open>size_t\<close> (64 bits)\<close>
  "size_t_of_int x = x mod 2 ^ 64"

definition long_of_size_t :: "int \<Rightarrow> int" where
  \<comment> \<open>a \<open>size_t\<close> passed for a parameter of type \<open>long\<close>\<close>
  "long_of_size_t x = (if x < 2 ^ 63 then x else x - 2 ^ 64)"

definition c_rem :: "int \<Rightarrow> int \<Rightarrow> int" where
  \<comment> \<open>the operator \<open>%\<close> of C, which truncates towards zero\<close>
  "c_rem a b = sgn a * (\<bar>a\<bar> mod \<bar>b\<bar>)"

record OUTPUTHISTORY =
  window_number :: int
  z_history_buffer_size :: nat
  z_history_maximum_buffer_size :: nat
  z_history_buffer_increment_size :: nat
  z_history_buffer :: "z_ucs list"
  z_history_buffer_end :: int
  z_history_buffer_front_index :: int
  z_history_buffer_back_index :: int
  nof_wraparounds :: "32 word"
  last_metadata_block_index :: int
  next_newline_after_buffer_back :: "int option"
  history_buffer_back_index_font :: int
  history_buffer_back_index_style :: int
  history_buffer_back_index_foreground :: int
  history_buffer_back_index_background :: int
  history_buffer_front_index_font :: int
  history_buffer_front_index_style :: int
  history_buffer_front_index_foreground :: int
  history_buffer_front_index_background :: int
  removed_paragraphs :: "(int \<times> int) list"

text \<open>
  \<open>removed_paragraphs\<close> is not a field of the C struct: it records, oldest first, the
  arguments of every call of \<open>paragraph_removal_function\<close>.
\<close>

subsection \<open>Creation and the buffer primitives\<close>

definition create_outputhistory ::
  "int \<Rightarrow> nat \<Rightarrow> nat \<Rightarrow> int \<Rightarrow> int \<Rightarrow> int \<Rightarrow> int \<Rightarrow> OUTPUTHISTORY" where
  "create_outputhistory window maximum_buffer_size buffer_increment_size
       foreground_colour background_color font style =
     \<lparr> window_number = window,
       z_history_buffer_size = 0,
       z_history_maximum_buffer_size = maximum_buffer_size,
       z_history_buffer_increment_size = buffer_increment_size,
       z_history_buffer = [],
       z_history_buffer_end = 0,
       z_history_buffer_front_index = 0,
       z_history_buffer_back_index = 0,
       nof_wraparounds = 0,
       last_metadata_block_index = 0,
       next_newline_after_buffer_back = None,
       history_buffer_back_index_font = font,
       history_buffer_back_index_style = style,
       history_buffer_back_index_foreground = foreground_colour,
       history_buffer_back_index_background = background_color,
       history_buffer_front_index_font = font,
       history_buffer_front_index_style = style,
       history_buffer_front_index_foreground = foreground_colour,
       history_buffer_front_index_background = background_color,
       removed_paragraphs = [] \<rparr>"

definition peek :: "OUTPUTHISTORY \<Rightarrow> int \<Rightarrow> error + z_ucs" where
  \<comment> \<open>the read \<open>*p\<close> of a pointer into the buffer\<close>
  "peek h p =
     (if 0 \<le> p \<and> p < int (length (z_history_buffer h))
      then Inr (z_history_buffer h ! nat p) else Inl Out_of_bounds)"

definition poke :: "OUTPUTHISTORY \<Rightarrow> int \<Rightarrow> z_ucs \<Rightarrow> error + OUTPUTHISTORY" where
  \<comment> \<open>the write \<open>*p = c\<close>\<close>
  "poke h p c =
     (if 0 \<le> p \<and> p < int (length (z_history_buffer h))
      then Inr (h\<lparr>z_history_buffer := (z_history_buffer h)[nat p := c]\<rparr>)
      else Inl Out_of_bounds)"

definition next_index :: "OUTPUTHISTORY \<Rightarrow> int \<Rightarrow> int" where
  \<comment> \<open>\<open>p == h->z_history_buffer_end ? h->z_history_buffer_start : p + 1\<close>\<close>
  "next_index h p = (if p = z_history_buffer_end h then 0 else p + 1)"

definition get_buffer_space_used :: "OUTPUTHISTORY \<Rightarrow> int" where
  "get_buffer_space_used h =
     (if z_history_buffer_size h = 0 then 0
      else if nof_wraparounds h = 0 then
        size_t_of_int (z_history_buffer_front_index h - z_history_buffer_back_index h + 1)
      else
        size_t_of_int (int (z_history_buffer_size h)
          - (z_history_buffer_back_index h - z_history_buffer_front_index h)))"

definition get_buffer_space_available :: "OUTPUTHISTORY \<Rightarrow> int" where
  "get_buffer_space_available h =
     (if z_history_buffer_size h = 0 then 0
      else if nof_wraparounds h = 0 then
        size_t_of_int (z_history_buffer_end h - z_history_buffer_front_index h + 1)
      else
        size_t_of_int (z_history_buffer_back_index h - z_history_buffer_front_index h))"

definition try_to_enlarge_buffer :: "env \<Rightarrow> OUTPUTHISTORY \<Rightarrow> nat \<Rightarrow> OUTPUTHISTORY" where
  "try_to_enlarge_buffer E h desired_z_ucs_size =
     (if realloc_succeeds E desired_z_ucs_size then
        h\<lparr> z_history_buffer_size := desired_z_ucs_size,
           z_history_buffer_end := int desired_z_ucs_size - 1,
           z_history_buffer :=
             (map (\<lambda>i. if i < length (z_history_buffer h) then z_history_buffer h ! i
                        else fresh_memory E i)
                [0 ..< desired_z_ucs_size + 1]) [desired_z_ucs_size := 0] \<rparr>
      else h)"

subsection \<open>Draining the buffer back: \<open>process_buffer_back\<close>\<close>

definition call_paragraph_removal_function ::
  "OUTPUTHISTORY \<Rightarrow> z_ucs \<Rightarrow> z_ucs \<Rightarrow> OUTPUTHISTORY" where
  \<comment> \<open>\<open>paragraph_removal_function(b1 - HISTORY_METADATA_DATA_OFFSET,
      b2 - HISTORY_METADATA_DATA_OFFSET)\<close>: the subtraction is on code units, the
      parameters of the callback are ints\<close>
  "call_paragraph_removal_function h b1 b2 =
     h\<lparr>removed_paragraphs := removed_paragraphs h @
         [(int_of_ucs (b1 - ucs_of_int HISTORY_METADATA_DATA_OFFSET),
           int_of_ucs (b2 - ucs_of_int HISTORY_METADATA_DATA_OFFSET))]\<rparr>"

text \<open>
  The branch of the first loop for an escape code unit at \<open>current_index\<close>. It returns
  the history, the index of the last code unit of the record and the remaining count.
\<close>

definition process_buffer_back_escape ::
  "env \<Rightarrow> OUTPUTHISTORY \<Rightarrow> int \<Rightarrow> int \<Rightarrow> error + (OUTPUTHISTORY \<times> int \<times> int)" where
  "process_buffer_back_escape E h current_index nof_zucs_chars =
     (let i1 = next_index h current_index in
      case peek h i1 of Inl e \<Rightarrow> Inl e | Inr t \<Rightarrow>
        if t = HISTORY_METADATA_ESCAPE then Inr (h, i1, nof_zucs_chars - 1)
        else if t = ucs_of_int (HISTORY_METADATA_TYPE_FONT E) then
          (let i2 = next_index h i1 in
           case peek h i2 of Inl e \<Rightarrow> Inl e | Inr v \<Rightarrow>
             Inr (h\<lparr>history_buffer_back_index_font := int16_of_ucs v\<rparr>, i2,
                  nof_zucs_chars - 2))
        else if t = ucs_of_int (HISTORY_METADATA_TYPE_STYLE E) then
          (let i2 = next_index h i1 in
           case peek h i2 of Inl e \<Rightarrow> Inl e | Inr v \<Rightarrow>
             Inr (h\<lparr>history_buffer_back_index_style := int16_of_ucs v\<rparr>, i2,
                  nof_zucs_chars - 2))
        else if t = ucs_of_int (HISTORY_METADATA_TYPE_COLOUR E) then
          (let i2 = next_index h i1 in
           case peek h i2 of Inl e \<Rightarrow> Inl e | Inr fg \<Rightarrow>
             (let i3 = next_index h i2 in
              case peek h i3 of Inl e \<Rightarrow> Inl e | Inr bg \<Rightarrow>
                Inr (h\<lparr>history_buffer_back_index_foreground := int16_of_ucs fg,
                        history_buffer_back_index_background := int16_of_ucs bg\<rparr>, i3,
                     nof_zucs_chars - 3)))
        else if t = ucs_of_int (HISTORY_METADATA_TYPE_PARAGRAPHATTRIBUTE E) then
          (let i2 = next_index h i1 in
           case peek h i2 of Inl e \<Rightarrow> Inl e | Inr buf1 \<Rightarrow>
             (let i3 = next_index h i2 in
              if paragraph_removal_function E \<and> next_newline_after_buffer_back h = None
              then (case peek h i3 of Inl e \<Rightarrow> Inl e | Inr v \<Rightarrow>
                      Inr (call_paragraph_removal_function h buf1 v, i3, nof_zucs_chars - 3))
              else Inr (h, i3, nof_zucs_chars - 3)))
        else Inl (INVALID_PARAMETER_TYPE ''metadata''))"

text \<open>The \<open>do ... while (nof_zucs_chars > 0)\<close> loop; it returns the history and the index.\<close>

fun process_buffer_back_loop ::
  "env \<Rightarrow> nat \<Rightarrow> OUTPUTHISTORY \<Rightarrow> int \<Rightarrow> int \<Rightarrow> error + (OUTPUTHISTORY \<times> int)" where
  "process_buffer_back_loop E 0 h current_index nof_zucs_chars = Inl Out_of_fuel"
| "process_buffer_back_loop E (Suc fuel) h current_index nof_zucs_chars =
     (let h1 = (if next_newline_after_buffer_back h = Some current_index
                then h\<lparr>next_newline_after_buffer_back := None\<rparr> else h) in
      case peek h1 current_index of Inl e \<Rightarrow> Inl e | Inr c \<Rightarrow>
        (case (if c = HISTORY_METADATA_ESCAPE
               then process_buffer_back_escape E h1 current_index nof_zucs_chars
               else Inr (h1, current_index, nof_zucs_chars)) of
           Inl e \<Rightarrow> Inl e
         | Inr (h2, i, n) \<Rightarrow>
             if n - 1 > 0 then process_buffer_back_loop E fuel h2 (next_index h2 i) (n - 1)
             else Inr (h2, next_index h2 i)))"

text \<open>
  The loop \<open>while (*current_index != Z_UCS_NEWLINE)\<close> that looks for the next newline
  behind the new back. (It also decrements \<open>nof_zucs_chars\<close>, which nothing reads
  afterwards.)
\<close>

fun process_buffer_back_newline_loop ::
  "env \<Rightarrow> nat \<Rightarrow> OUTPUTHISTORY \<Rightarrow> int \<Rightarrow> error + (OUTPUTHISTORY \<times> int)" where
  "process_buffer_back_newline_loop E 0 h current_index = Inl Out_of_fuel"
| "process_buffer_back_newline_loop E (Suc fuel) h current_index =
     (case peek h current_index of Inl e \<Rightarrow> Inl e | Inr c \<Rightarrow>
        if c = Z_UCS_NEWLINE then Inr (h, current_index)
        else if current_index = z_history_buffer_front_index h then Inr (h, current_index)
        else
          (let i1 = next_index h current_index in
           case peek h i1 of Inl e \<Rightarrow> Inl e | Inr c1 \<Rightarrow>
             if c1 = HISTORY_METADATA_ESCAPE then
               (let i2 = next_index h i1 in
                case peek h i2 of Inl e \<Rightarrow> Inl e | Inr buf1 \<Rightarrow>
                  (let i3 = next_index h i2 in
                   case peek h i3 of Inl e \<Rightarrow> Inl e | Inr buf2 \<Rightarrow>
                     if buf1 = ucs_of_int (HISTORY_METADATA_TYPE_PARAGRAPHATTRIBUTE E)
                        \<or> buf1 = ucs_of_int (HISTORY_METADATA_TYPE_COLOUR E)
                     then
                       (let i4 = next_index h i3 in
                        if buf1 = ucs_of_int (HISTORY_METADATA_TYPE_PARAGRAPHATTRIBUTE E)
                        then (case peek h i4 of Inl e \<Rightarrow> Inl e | Inr v \<Rightarrow>
                                process_buffer_back_newline_loop E fuel
                                  (call_paragraph_removal_function h buf2 v) i4)
                        else process_buffer_back_newline_loop E fuel h i4)
                     else process_buffer_back_newline_loop E fuel h i3))
             else process_buffer_back_newline_loop E fuel h i1))"

definition process_buffer_back ::
  "env \<Rightarrow> nat \<Rightarrow> OUTPUTHISTORY \<Rightarrow> int \<Rightarrow> error + OUTPUTHISTORY" where
  "process_buffer_back E fuel h nof_zucs_chars =
     (case process_buffer_back_loop E fuel h (z_history_buffer_front_index h) nof_zucs_chars of
        Inl e \<Rightarrow> Inl e
      | Inr (h1, current_index) \<Rightarrow>
          if paragraph_removal_function E \<and> next_newline_after_buffer_back h1 = None then
            (case process_buffer_back_newline_loop E fuel
                    (h1\<lparr>next_newline_after_buffer_back := Some current_index\<rparr>)
                    current_index of
               Inl e \<Rightarrow> Inl e
             | Inr (h2, i) \<Rightarrow> Inr (h2\<lparr>next_newline_after_buffer_back := Some i\<rparr>))
          else Inr h1)"

subsection \<open>Writing: \<open>store_data_in_history\<close> and \<open>store_metadata_in_history\<close>\<close>

text \<open>
  \<open>z_ucs_ncpy\<close> is not among the sources. Modelled from the spec: section 4.5 has the
  writer copy the code units of the input into the buffer, so \<open>z_ucs_ncpy dst src n\<close>
  copies exactly \<open>n\<close> code units. The source is the list of the code units that may be
  read from the data pointer of the caller, with the offset the pointer has reached.
\<close>

definition z_ucs_ncpy ::
  "OUTPUTHISTORY \<Rightarrow> int \<Rightarrow> z_ucs list \<Rightarrow> nat \<Rightarrow> int \<Rightarrow> error + OUTPUTHISTORY" where
  "z_ucs_ncpy h dst src off n =
     (if n \<le> 0 then Inr h
      else if dst < 0 \<or> dst + n > int (length (z_history_buffer h))
              \<or> int off + n > int (length src)
      then Inl Out_of_bounds
      else Inr (h\<lparr>z_history_buffer :=
                  take (nat dst) (z_history_buffer h) @ take (nat n) (drop off src)
                  @ drop (nat (dst + n)) (z_history_buffer h)\<rparr>))"

definition merge_bytes :: "env \<Rightarrow> nat \<Rightarrow> z_ucs \<Rightarrow> z_ucs \<Rightarrow> z_ucs" where
  \<comment> \<open>the cell whose first \<open>r\<close> bytes in memory come from \<open>s\<close>, the others from \<open>d\<close>\<close>
  "merge_bytes E r s d =
     (if little_endian E
      then take_bit (8 * r) s + push_bit (8 * r) (drop_bit (8 * r) d)
      else push_bit (8 * (4 - r)) (drop_bit (8 * (4 - r)) s) + take_bit (8 * (4 - r)) d)"

definition memcpy_to_start ::
  "env \<Rightarrow> OUTPUTHISTORY \<Rightarrow> z_ucs list \<Rightarrow> nat \<Rightarrow> error + OUTPUTHISTORY" where
  \<comment> \<open>\<open>memcpy(h->z_history_buffer_start, data, nbytes)\<close>, a code unit having 4 bytes\<close>
  "memcpy_to_start E h src nbytes =
     (let k = nbytes div 4; r = nbytes mod 4; touched = (if r = 0 then k else k + 1);
          buf = z_history_buffer h in
      if nbytes = 0 then Inr h
      else if touched > length buf \<or> touched > length src then Inl Out_of_bounds
      else Inr (h\<lparr>z_history_buffer :=
                  take k src
                  @ (if r = 0 then [] else [merge_bytes E r (src ! k) (buf ! k)])
                  @ drop touched buf\<rparr>))"

text \<open>The loop \<open>while (len > 0)\<close> of the wrap-around mode.\<close>

fun store_data_wrap_loop ::
  "env \<Rightarrow> nat \<Rightarrow> OUTPUTHISTORY \<Rightarrow> z_ucs list \<Rightarrow> nat \<Rightarrow> int \<Rightarrow> error + OUTPUTHISTORY" where
  "store_data_wrap_loop E 0 h src off len =
     (if len \<le> 0 then Inr h else Inl Out_of_fuel)"
| "store_data_wrap_loop E (Suc fuel') h src off len =
     (if len \<le> 0 then Inr h
      else
        (let len_to_write =
               (if z_history_buffer_front_index h + len - 1 > z_history_buffer_end h
                then size_t_of_int
                       (z_history_buffer_end h - z_history_buffer_front_index h + 1)
                else len) in
         case process_buffer_back E fuel' h (long_of_size_t len_to_write) of
           Inl e \<Rightarrow> Inl e
         | Inr h1 \<Rightarrow>
             (case z_ucs_ncpy h1 (z_history_buffer_front_index h1) src off len_to_write of
                Inl e \<Rightarrow> Inl e
              | Inr h2 \<Rightarrow>
                  (let front = z_history_buffer_front_index h2 + len_to_write;
                       front' = (if front = z_history_buffer_end h2 + 1 then 0 else front)
                   in store_data_wrap_loop E fuel'
                        (h2\<lparr>z_history_buffer_front_index := front',
                            z_history_buffer_back_index := front'\<rparr>)
                        src (off + nat len_to_write) (len - len_to_write)))))"

text \<open>
  \<open>store_data_in_history\<close> without its last step, the evaluation of the state block.
  \<open>store_data_in_history\<close>, \<open>write_metadata_state_block_if_necessary\<close> and
  \<open>store_metadata_in_history\<close> call each other in C; the recursion ends after one
  round, since \<open>store_metadata_in_history\<close> passes \<open>evaluate_state_block = false\<close>,
  so the body is defined first, in three parts. The data pointer is \<open>None\<close> for
  NULL, else the code units readable from it. In the regular branch the code does not
  reduce \<open>len\<close> by what it has written up to the buffer end before it enters the
  loop of the wrap-around mode, and neither does the model.
\<close>

definition store_data_single_block ::
  "env \<Rightarrow> nat \<Rightarrow> OUTPUTHISTORY \<Rightarrow> z_ucs list \<Rightarrow> nat \<Rightarrow> error + OUTPUTHISTORY" where
  \<comment> \<open>the branch \<open>len >= h->z_history_maximum_buffer_size\<close>\<close>
  "store_data_single_block E fuel h src len =
     (case process_buffer_back E fuel h (long_of_size_t (get_buffer_space_used h)) of
        Inl e \<Rightarrow> Inl e
      | Inr h1 \<Rightarrow>
          (let h2 = (if z_history_buffer_size h1 < z_history_maximum_buffer_size h1
                     then try_to_enlarge_buffer E h1 (z_history_maximum_buffer_size h1)
                     else h1) in
           case memcpy_to_start E h2 src (len - z_history_maximum_buffer_size h2) of
             Inl e \<Rightarrow> Inl e
           | Inr h3 \<Rightarrow>
               Inr (h3\<lparr>z_history_buffer_front_index := 0,
                       z_history_buffer_back_index := z_history_buffer_end h3\<rparr>)))"

definition store_data_enlarge :: "env \<Rightarrow> OUTPUTHISTORY \<Rightarrow> nat \<Rightarrow> error + OUTPUTHISTORY" where
  \<comment> \<open>the block \<open>if ((space_available = get_buffer_space_available(h)) < len)\<close>\<close>
  "store_data_enlarge E h len =
     (let space_available = get_buffer_space_available h in
      if space_available < int len then
        (if z_history_buffer_increment_size h = 0 then Inl Division_by_zero
         else
           (let missing_space = int len - space_available;
                nof_increments =
                  missing_space div int (z_history_buffer_increment_size h) + 1;
                new_size = int (z_history_buffer_size h)
                  + nof_increments * int (z_history_buffer_increment_size h);
                desired_size =
                  (if new_size > int (z_history_maximum_buffer_size h)
                   then int (z_history_maximum_buffer_size h) else new_size)
            in Inr (if desired_size > int (z_history_buffer_size h)
                    then try_to_enlarge_buffer E h (nat desired_size) else h)))
      else Inr h)"

definition store_data_regular ::
  "env \<Rightarrow> nat \<Rightarrow> OUTPUTHISTORY \<Rightarrow> z_ucs list \<Rightarrow> nat \<Rightarrow> int \<Rightarrow> error + OUTPUTHISTORY" where
  \<comment> \<open>the writes of the regular branch, for the data offset and the length that the
      block \<open>if (h->z_history_buffer_size < len)\<close> has left\<close>
  "store_data_regular E fuel h src off len =
     (if nof_wraparounds h = 0 then
        (let space_available =
               size_t_of_int (z_history_buffer_end h - z_history_buffer_front_index h + 1);
             len_to_write = (if space_available > len then len else space_available)
         in
         case (if len_to_write > 0
               then (case z_ucs_ncpy h (z_history_buffer_front_index h)
                             src off len_to_write of
                       Inl e \<Rightarrow> Inl e
                     | Inr h' \<Rightarrow>
                         Inr (h'\<lparr>z_history_buffer_front_index :=
                                   z_history_buffer_front_index h' + len_to_write\<rparr>))
               else Inr h) of
           Inl e \<Rightarrow> Inl e
         | Inr h2 \<Rightarrow>
             if len_to_write = len then Inr h2
             else store_data_wrap_loop E fuel
                    (h2\<lparr>nof_wraparounds :=
                          (if nof_wraparounds h2 + 1 = 0 then 1
                           else nof_wraparounds h2 + 1),
                        z_history_buffer_front_index := 0\<rparr>)
                    src (off + nat len_to_write) len)
      else store_data_wrap_loop E fuel h src off len)"

definition store_data_in_history_body ::
  "env \<Rightarrow> nat \<Rightarrow> OUTPUTHISTORY \<Rightarrow> z_ucs list option \<Rightarrow> nat \<Rightarrow> error + OUTPUTHISTORY" where
  "store_data_in_history_body E fuel h data len =
     (case data of None \<Rightarrow> Inr h | Some src \<Rightarrow>
      if len \<ge> z_history_maximum_buffer_size h
      then store_data_single_block E fuel h src len
      else
        (case store_data_enlarge E h len of
           Inl e \<Rightarrow> Inl e
         | Inr h1 \<Rightarrow>
             if z_history_buffer_size h1 < len
             then store_data_regular E fuel h1 src (len - z_history_buffer_size h1)
                    (int (z_history_buffer_size h1))
             else store_data_regular E fuel h1 src 0 (int len)))"

text \<open>
  The variadic parameters of \<open>store_metadata_in_history\<close> are the two ints \<open>p1\<close>
  and \<open>p2\<close>; the code reads the second one for COLOUR and PARAGRAPHATTRIBUTE only.
  The result is the return value together with the history.
\<close>

definition store_metadata_in_history ::
  "env \<Rightarrow> nat \<Rightarrow> OUTPUTHISTORY \<Rightarrow> int \<Rightarrow> int \<Rightarrow> int \<Rightarrow> error + (int \<times> OUTPUTHISTORY)" where
  "store_metadata_in_history E fuel h metadata_type p1 p2 =
     (if metadata_type \<noteq> HISTORY_METADATA_TYPE_FONT E
         \<and> metadata_type \<noteq> HISTORY_METADATA_TYPE_STYLE E
         \<and> metadata_type \<noteq> HISTORY_METADATA_TYPE_COLOUR E
         \<and> metadata_type \<noteq> HISTORY_METADATA_TYPE_PARAGRAPHATTRIBUTE E
      then Inr (- 1, h)
      else
        (let parameter = int16_of_int p1 in
         if metadata_type = HISTORY_METADATA_TYPE_COLOUR E
            \<and> (parameter < - 2 \<or> parameter > 15)
         then Inl (INVALID_PARAMETER_TYPE ''parameter'')
         else
           (let h1 =
                  (if metadata_type = HISTORY_METADATA_TYPE_FONT E
                   then h\<lparr>history_buffer_front_index_font := parameter\<rparr>
                   else if metadata_type = HISTORY_METADATA_TYPE_STYLE E
                   then h\<lparr>history_buffer_front_index_style := parameter\<rparr>
                   else if metadata_type = HISTORY_METADATA_TYPE_COLOUR E
                   then h\<lparr>history_buffer_front_index_foreground := parameter\<rparr>
                   else h);
                b0 = HISTORY_METADATA_ESCAPE;
                b1 = ucs_of_int metadata_type;
                b2 = ucs_of_int (parameter + HISTORY_METADATA_DATA_OFFSET)
            in
            if metadata_type = HISTORY_METADATA_TYPE_COLOUR E
               \<or> metadata_type = HISTORY_METADATA_TYPE_PARAGRAPHATTRIBUTE E
            then
              (let parameter2 = int16_of_int p2 in
               if metadata_type = HISTORY_METADATA_TYPE_COLOUR E
                  \<and> (parameter2 < - 2 \<or> parameter2 > 15)
               then Inl (INVALID_PARAMETER_TYPE ''parameter'')
               else
                 (case store_data_in_history_body E fuel h1
                         (Some [b0, b1, b2,
                                ucs_of_int (parameter2 + HISTORY_METADATA_DATA_OFFSET)]) 4 of
                    Inl e \<Rightarrow> Inl e | Inr h2 \<Rightarrow> Inr (0, h2)))
            else
              (case store_data_in_history_body E fuel h1 (Some [b0, b1, b2]) 3 of
                 Inl e \<Rightarrow> Inl e | Inr h2 \<Rightarrow> Inr (0, h2)))))"

definition write_metadata_state_block_if_necessary ::
  "env \<Rightarrow> nat \<Rightarrow> OUTPUTHISTORY \<Rightarrow> error + OUTPUTHISTORY" where
  "write_metadata_state_block_if_necessary E fuel h =
     (if Z_HISTORY_METADATA_STATE_BLOCK_SIZE E = 0 then Inl Division_by_zero
      else
        (let buffer_index = z_history_buffer_front_index h;
             metadata_block_index =
               buffer_index - c_rem buffer_index (Z_HISTORY_METADATA_STATE_BLOCK_SIZE E)
         in
         case (if metadata_block_index \<noteq> last_metadata_block_index h then
                 (case store_metadata_in_history E fuel h (HISTORY_METADATA_TYPE_FONT E)
                         (history_buffer_back_index_font h) 0 of
                    Inl e \<Rightarrow> Inl e
                  | Inr (_, h1) \<Rightarrow>
                      (case store_metadata_in_history E fuel h1
                              (HISTORY_METADATA_TYPE_STYLE E)
                              (history_buffer_back_index_style h1) 0 of
                         Inl e \<Rightarrow> Inl e
                       | Inr (_, h2) \<Rightarrow>
                           (case store_metadata_in_history E fuel h2
                                   (HISTORY_METADATA_TYPE_COLOUR E)
                                   (history_buffer_back_index_foreground h2)
                                   (history_buffer_back_index_background h2) of
                              Inl e \<Rightarrow> Inl e
                            | Inr (_, h3) \<Rightarrow> Inr h3)))
               else Inr h) of
           Inl e \<Rightarrow> Inl e
         | Inr h' \<Rightarrow> Inr (h'\<lparr>last_metadata_block_index := metadata_block_index\<rparr>)))"

definition store_data_in_history ::
  "env \<Rightarrow> nat \<Rightarrow> OUTPUTHISTORY \<Rightarrow> z_ucs list option \<Rightarrow> nat \<Rightarrow> bool
     \<Rightarrow> error + OUTPUTHISTORY" where
  "store_data_in_history E fuel h data len evaluate_state_block =
     (case data of None \<Rightarrow> Inr h | Some src \<Rightarrow>
        (case store_data_in_history_body E fuel h data len of
           Inl e \<Rightarrow> Inl e
         | Inr h1 \<Rightarrow>
             if evaluate_state_block then write_metadata_state_block_if_necessary E fuel h1
             else Inr h1))"

definition z_ucs_len :: "z_ucs list \<Rightarrow> nat" where
  \<comment> \<open>Modelled from the spec: \<open>z_ucs_len\<close> is missing; \<open>store_text\<close> is said to compute
      the length of the string, which ends before the first code unit 0.\<close>
  "z_ucs_len s = length (takeWhile (\<lambda>c. c \<noteq> 0) s)"

text \<open>
  The argument of \<open>store_z_ucs_output_in_history\<close> is \<open>None\<close> for NULL, else the
  characters of the string; the memory readable from the pointer is the string with its
  terminating 0.
\<close>

definition store_z_ucs_output_in_history ::
  "env \<Rightarrow> nat \<Rightarrow> OUTPUTHISTORY \<Rightarrow> z_ucs list option \<Rightarrow> error + OUTPUTHISTORY" where
  "store_z_ucs_output_in_history E fuel h z_ucs_output =
     (case z_ucs_output of None \<Rightarrow> Inr h | Some s \<Rightarrow>
        if z_ucs_len (s @ [0]) = 0 then Inr h
        else store_data_in_history E fuel h (Some (s @ [0])) (z_ucs_len (s @ [0])) True)"

subsection \<open>Stepping back: \<open>decrement_buffer_pointer\<close> and \<open>remove_chars_from_history\<close>\<close>

text \<open>
  \<open>decrement_buffer_pointer\<close> returns the new pointer (\<open>None\<close> for NULL) together
  with the counter that the C function updates through its third parameter.
\<close>

definition decrement_buffer_pointer ::
  "OUTPUTHISTORY \<Rightarrow> int \<Rightarrow> 32 word \<Rightarrow> int option \<times> 32 word" where
  "decrement_buffer_pointer h ptr wraparounds =
     (if ptr = z_history_buffer_back_index h \<and> ptr = z_history_buffer_front_index h
         \<and> wraparounds > 0
      then (None, wraparounds)
      else if ptr - 1 < 0 then
        (if nof_wraparounds h = 0 then (None, wraparounds)
         else (Some (z_history_buffer_end h), wraparounds - 1))
      else (Some (ptr - 1), wraparounds))"

text \<open>
  The loop \<open>while (nof_chars > 0)\<close> of \<open>remove_chars_from_history\<close>. The result is
  \<open>None\<close> where the C code returns -1 from inside the loop, else the pointer and the
  counter at the end of the loop. \<open>nof_chars\<close> is a C int, here without its bound.
\<close>

fun remove_chars_loop ::
  "env \<Rightarrow> nat \<Rightarrow> OUTPUTHISTORY \<Rightarrow> int \<Rightarrow> 32 word \<Rightarrow> z_ucs \<Rightarrow> int
     \<Rightarrow> error + (int \<times> 32 word) option" where
  "remove_chars_loop E 0 h ptr wraparounds last_data nof_chars =
     (if nof_chars \<le> 0 then Inr (Some (ptr, wraparounds)) else Inl Out_of_fuel)"
| "remove_chars_loop E (Suc fuel') h ptr wraparounds last_data nof_chars =
     (if nof_chars \<le> 0 then Inr (Some (ptr, wraparounds))
      else
        (case decrement_buffer_pointer h ptr wraparounds of
           (None, _) \<Rightarrow> Inr None
         | (Some ptr', wraparounds') \<Rightarrow>
             (case peek h ptr' of Inl e \<Rightarrow> Inl e | Inr c \<Rightarrow>
                if c = HISTORY_METADATA_ESCAPE \<and> last_data \<noteq> 0 then
                  remove_chars_loop E fuel' h ptr' wraparounds' last_data
                    (nof_chars +
                       (if last_data = ucs_of_int (HISTORY_METADATA_TYPE_COLOUR E)
                           \<or> last_data = ucs_of_int (HISTORY_METADATA_TYPE_PARAGRAPHATTRIBUTE E)
                        then 4 else 3))
                else remove_chars_loop E fuel' h ptr' wraparounds' c (nof_chars - 1))))"

definition remove_chars_from_history ::
  "env \<Rightarrow> nat \<Rightarrow> OUTPUTHISTORY \<Rightarrow> int \<Rightarrow> error + (int \<times> OUTPUTHISTORY)" where
  "remove_chars_from_history E fuel history nof_chars =
     (case remove_chars_loop E fuel history (z_history_buffer_front_index history)
             (nof_wraparounds history) 0 nof_chars of
        Inl e \<Rightarrow> Inl e
      | Inr None \<Rightarrow> Inr (- 1, history)
      | Inr (Some (ptr, wraparounds)) \<Rightarrow>
          Inr (0, history\<lparr>z_history_buffer_front_index := ptr,
                          nof_wraparounds := wraparounds\<rparr>))"

subsection \<open>The cursor: \<open>history_output\<close>\<close>

text \<open>
  A call of one of the functions of the render target. \<open>Z_ucs_output\<close> carries the
  string that the target reads from the staging array, up to the terminating 0.
\<close>

datatype target_call =
    Set_font int
  | Set_text_style int
  | Set_colour int int int
  | Z_ucs_output "z_ucs list"

text \<open>
  The struct \<open>history_output\<close>. The pointer to its history is not a field: every
  function below takes the history as it is at the time of the call. The cursor's own
  \<open>nof_wraparounds\<close> is \<open>output_nof_wraparounds\<close> here, since the history has a field
  of that name too. \<open>target_calls\<close> stands for the render target: the calls made to it,
  oldest first.
\<close>

record history_output =
  validity_wraparounds :: "32 word"
  validity_frontindex :: int
  rewound_paragraph_was_newline_terminated :: bool
  validation_disabled :: bool
  last_rewinded_paragraphs_block_index :: int
  last_used_metadata_state_font :: int
  last_used_metadata_state_style :: int
  last_used_metadata_state_foreground :: int
  last_used_metadata_state_background :: int
  last_paragraph_attribute_index :: "int option"
  dont_skip_newline :: bool
  current_paragraph_index :: int
  font_at_index :: int
  style_at_index :: int
  foreground_at_index :: int
  background_at_index :: int
  found_end_of_buffer :: bool
  output_nof_wraparounds :: "32 word"
  first_iteration_done :: bool
  metadata_at_index_evaluated :: bool
  saved_current_paragraph_index :: int
  saved_nof_wraparounds :: "32 word"
  saved_found_end_of_buffer :: bool
  saved_first_iteration_done :: bool
  saved_rewound_paragraph_was_newline_terminated :: bool
  saved_metadata_at_index_evaluated :: bool
  saved_font_at_index :: int
  saved_style_at_index :: int
  saved_foreground_at_index :: int
  saved_background_at_index :: int
  saved_last_rewinded_paragraphs_block_index :: int
  saved_last_used_metadata_state_font :: int
  saved_last_used_metadata_state_style :: int
  saved_last_used_metadata_state_foreground :: int
  saved_last_used_metadata_state_background :: int
  target_calls :: "target_call list"

text \<open>
  \<open>init_history_output\<close>. The two flags of \<open>output_init_flags\<close> are two booleans.
  The code sets some of the fields only; \<open>fresh\<close> is the indeterminate content of the
  newly allocated struct and gives the others (\<open>metadata_at_index_evaluated\<close> and the
  saved slot among them). The result is \<open>None\<close> where the C function returns NULL.
\<close>

definition init_history_output ::
  "OUTPUTHISTORY \<Rightarrow> bool \<Rightarrow> bool \<Rightarrow> history_output \<Rightarrow> history_output option" where
  "init_history_output h from_bufferback without_validation fresh =
     (if z_history_buffer_size h = 0 then None
      else
        (let result = fresh\<lparr>
               validity_wraparounds := nof_wraparounds h,
               validity_frontindex := z_history_buffer_front_index h,
               rewound_paragraph_was_newline_terminated := False,
               validation_disabled := without_validation,
               last_rewinded_paragraphs_block_index := - 1,
               last_used_metadata_state_font := - 1,
               last_used_metadata_state_style := - 1,
               last_used_metadata_state_foreground := Z_COLOUR_UNDEFINED,
               last_used_metadata_state_background := Z_COLOUR_UNDEFINED,
               last_paragraph_attribute_index := None,
               dont_skip_newline := False\<rparr>
         in
         if \<not> from_bufferback then
           (case decrement_buffer_pointer h (z_history_buffer_front_index h) 0 of
              (None, _) \<Rightarrow> None
            | (Some p, w) \<Rightarrow>
                Some (result\<lparr>
                  current_paragraph_index := p,
                  font_at_index := history_buffer_front_index_font h,
                  style_at_index := history_buffer_front_index_style h,
                  foreground_at_index := history_buffer_front_index_foreground h,
                  background_at_index := history_buffer_front_index_background h,
                  found_end_of_buffer := False,
                  output_nof_wraparounds := w,
                  first_iteration_done := False\<rparr>))
         else
           Some (result\<lparr>
             current_paragraph_index := z_history_buffer_back_index h,
             font_at_index := history_buffer_back_index_font h,
             style_at_index := history_buffer_back_index_style h,
             foreground_at_index := history_buffer_back_index_foreground h,
             background_at_index := history_buffer_back_index_background h,
             found_end_of_buffer := True,
             output_nof_wraparounds :=
               (if nof_wraparounds h > 0 then nof_wraparounds h - 1 else 0),
             first_iteration_done := True\<rparr>)))"

definition validate_outputhistory :: "OUTPUTHISTORY \<Rightarrow> history_output \<Rightarrow> error + unit" where
  "validate_outputhistory h output =
     (if nof_wraparounds h = validity_wraparounds output
         \<and> validity_frontindex output = z_history_buffer_front_index h
      then Inr () else Inl HISTORYOUTPUT_NO_LONGER_VALID)"

definition peek_ptr :: "OUTPUTHISTORY \<Rightarrow> int option \<Rightarrow> error + z_ucs" where
  \<comment> \<open>the read \<open>*p\<close> of a pointer that may be NULL\<close>
  "peek_ptr h p = (case p of None \<Rightarrow> Inl Out_of_bounds | Some i \<Rightarrow> peek h i)"

text \<open>
  The search loop of \<open>evaluate_metadata_for_paragraph\<close>. \<open>i2\<close> and \<open>i3\<close> are the
  values of the C variables at the start of an iteration (\<open>i4\<close> is assigned from \<open>i3\<close>
  before it is read). The attributes of the cursor are of the types \<open>z_font\<close>,
  \<open>z_style\<close> and \<open>z_colour\<close>, so an int stored into them is converted.
\<close>

fun evaluate_metadata_loop ::
  "env \<Rightarrow> nat \<Rightarrow> OUTPUTHISTORY \<Rightarrow> history_output \<Rightarrow> int \<Rightarrow> int option \<Rightarrow> int option
     \<Rightarrow> 32 word \<Rightarrow> error + history_output" where
  "evaluate_metadata_loop E 0 h output index i2 i3 wraparounds =
     (if font_at_index output = - 1 \<or> style_at_index output = - 1
         \<or> foreground_at_index output = Z_COLOUR_UNDEFINED
         \<or> background_at_index output = Z_COLOUR_UNDEFINED
      then Inl Out_of_fuel else Inr output)"
| "evaluate_metadata_loop E (Suc fuel') h output index i2 i3 wraparounds =
     (if font_at_index output = - 1 \<or> style_at_index output = - 1
         \<or> foreground_at_index output = Z_COLOUR_UNDEFINED
         \<or> background_at_index output = Z_COLOUR_UNDEFINED
      then
        ((let i4' = i3; i3' = i2; i2' = Some index in
            case decrement_buffer_pointer h index wraparounds of
              (None, _) \<Rightarrow>
                (let o1 = (if font_at_index output = - 1
                           then output\<lparr>font_at_index := history_buffer_back_index_font h\<rparr>
                           else output);
                     o2 = (if style_at_index o1 = - 1
                           then o1\<lparr>style_at_index := history_buffer_back_index_style h\<rparr>
                           else o1);
                     o3 = (if foreground_at_index o2 = Z_COLOUR_UNDEFINED
                           then o2\<lparr>foreground_at_index :=
                                     history_buffer_front_index_foreground h\<rparr>
                           else o2);
                     o4 = (if background_at_index o3 = Z_COLOUR_UNDEFINED
                           then o3\<lparr>background_at_index :=
                                     history_buffer_front_index_background h\<rparr>
                           else o3)
                 in Inr o4)
            | (Some index', wraparounds') \<Rightarrow>
                (case peek h index' of Inl e \<Rightarrow> Inl e | Inr c \<Rightarrow>
                   if c = HISTORY_METADATA_ESCAPE then
                     (case peek_ptr h i2' of Inl e \<Rightarrow> Inl e | Inr t \<Rightarrow>
                      (case peek_ptr h i3' of Inl e \<Rightarrow> Inl e | Inr v \<Rightarrow>
                        (let metadata_type = int_of_ucs t;
                             parameter = int_of_ucs v - HISTORY_METADATA_DATA_OFFSET
                         in
                         if metadata_type = HISTORY_METADATA_TYPE_FONT E
                            \<and> font_at_index output = - 1
                         then evaluate_metadata_loop E fuel' h
                                (output\<lparr>font_at_index := int16_of_int parameter\<rparr>)
                                index' i2' i3' wraparounds'
                         else if metadata_type = HISTORY_METADATA_TYPE_STYLE E
                                 \<and> style_at_index output = - 1
                         then evaluate_metadata_loop E fuel' h
                                (output\<lparr>style_at_index := int16_of_int parameter\<rparr>)
                                index' i2' i3' wraparounds'
                         else if metadata_type = HISTORY_METADATA_TYPE_COLOUR E
                                 \<and> (foreground_at_index output = Z_COLOUR_UNDEFINED
                                    \<or> background_at_index output = Z_COLOUR_UNDEFINED)
                         then
                           (case peek_ptr h i4' of Inl e \<Rightarrow> Inl e | Inr v2 \<Rightarrow>
                              evaluate_metadata_loop E fuel' h
                                (output\<lparr>foreground_at_index := int16_of_int parameter,
                                        background_at_index :=
                                          int16_of_int
                                            (int_of_ucs v2 - HISTORY_METADATA_DATA_OFFSET)\<rparr>)
                                index' i2' i3' wraparounds')
                         else evaluate_metadata_loop E fuel' h output
                                index' i2' i3' wraparounds')))
                   else evaluate_metadata_loop E fuel' h output index' i2' i3' wraparounds')))
      else Inr output)"

definition evaluate_metadata_for_paragraph ::
  "env \<Rightarrow> nat \<Rightarrow> OUTPUTHISTORY \<Rightarrow> history_output \<Rightarrow> error + history_output" where
  "evaluate_metadata_for_paragraph E fuel h output =
     (case (if \<not> validation_disabled output then validate_outputhistory h output
            else Inr ()) of
        Inl e \<Rightarrow> Inl e
      | Inr _ \<Rightarrow>
          if metadata_at_index_evaluated output then Inr output
          else if Z_HISTORY_METADATA_STATE_BLOCK_SIZE E = 0 then Inl Division_by_zero
          else
            (let buffer_index = current_paragraph_index output;
                 metadata_block_index =
                   buffer_index - c_rem buffer_index (Z_HISTORY_METADATA_STATE_BLOCK_SIZE E)
             in
             case (if last_rewinded_paragraphs_block_index output = metadata_block_index
                      \<and> last_used_metadata_state_font output \<noteq> - 1
                      \<and> last_used_metadata_state_style output \<noteq> - 1
                      \<and> last_used_metadata_state_foreground output \<noteq> Z_COLOUR_UNDEFINED
                      \<and> last_used_metadata_state_background output \<noteq> - Z_COLOUR_UNDEFINED
                   then
                     Inr (output\<lparr>
                       font_at_index := last_used_metadata_state_font output,
                       style_at_index := last_used_metadata_state_style output,
                       foreground_at_index := last_used_metadata_state_foreground output,
                       background_at_index := last_used_metadata_state_background output\<rparr>)
                   else
                     evaluate_metadata_loop E fuel h
                       (output\<lparr>font_at_index := - 1, style_at_index := - 1,
                               foreground_at_index := Z_COLOUR_UNDEFINED,
                               background_at_index := Z_COLOUR_UNDEFINED\<rparr>)
                       (current_paragraph_index output) None None
                       (output_nof_wraparounds output)) of
               Inl e \<Rightarrow> Inl e
             | Inr o' \<Rightarrow> Inr (o'\<lparr>metadata_at_index_evaluated := True\<rparr>)))"

subsection \<open>\<open>output_rewind_paragraph\<close>\<close>

text \<open>
  What a call of \<open>output_rewind_paragraph\<close> gives back: the return value, what it has
  written through its three result pointers (\<open>None\<close> where it has written nothing; the
  callers modelled here pass three pointers that are not NULL), and the cursor.
\<close>

record rewind_result =
  return_value :: int
  char_count_written :: "int option"
  paragraph_attr1_written :: "int option"
  paragraph_attr2_written :: "int option"
  output_after :: history_output

text \<open>
  The \<open>do ... while (*index != '\n')\<close> loop. \<open>last_index\<close> and \<open>last_index2\<close> are
  the values at the start of an iteration. The result says whether the loop was left
  through the failed decrement (the buffer start was hit), and gives \<open>last_index\<close>,
  \<open>last_nof_wraparounds\<close>, \<open>nof_chars\<close> and the two paragraph attributes written so far.
\<close>

fun rewind_loop ::
  "env \<Rightarrow> nat \<Rightarrow> OUTPUTHISTORY \<Rightarrow> int \<Rightarrow> int option \<Rightarrow> int option \<Rightarrow> 32 word \<Rightarrow> int
     \<Rightarrow> int option \<Rightarrow> int option
     \<Rightarrow> error + (bool \<times> int \<times> 32 word \<times> int \<times> int option \<times> int option)" where
  "rewind_loop E 0 h index last_index last_index2 wraparounds nof_chars pa1 pa2 =
     Inl Out_of_fuel"
| "rewind_loop E (Suc fuel) h index last_index last_index2 wraparounds nof_chars pa1 pa2 =
     (let last_index3' = last_index2; last_index2' = last_index; last_index' = index;
          last_nof_wraparounds = wraparounds in
      case decrement_buffer_pointer h index wraparounds of
        (None, _) \<Rightarrow> Inr (True, last_index', last_nof_wraparounds, nof_chars, pa1, pa2)
      | (Some index', wraparounds') \<Rightarrow>
          (case peek h index' of Inl e \<Rightarrow> Inl e | Inr c \<Rightarrow>
             (case (if c = HISTORY_METADATA_ESCAPE then
                      (case peek h last_index' of Inl e \<Rightarrow> Inl e | Inr t \<Rightarrow>
                         if t = ucs_of_int (HISTORY_METADATA_TYPE_COLOUR E)
                         then Inr (nof_chars + 1 - 4, pa1, pa2)
                         else if t = ucs_of_int (HISTORY_METADATA_TYPE_PARAGRAPHATTRIBUTE E)
                         then
                           (case peek_ptr h last_index2' of Inl e \<Rightarrow> Inl e | Inr a1 \<Rightarrow>
                            (case peek_ptr h last_index3' of Inl e \<Rightarrow> Inl e | Inr a2 \<Rightarrow>
                              Inr (nof_chars + 1 - 4,
                                   Some (int_of_ucs
                                     (a1 - ucs_of_int HISTORY_METADATA_DATA_OFFSET)),
                                   Some (int_of_ucs
                                     (a2 - ucs_of_int HISTORY_METADATA_DATA_OFFSET)))))
                         else Inr (nof_chars + 1 - 3, pa1, pa2))
                    else Inr (nof_chars + 1, pa1, pa2)) of
                Inl e \<Rightarrow> Inl e
              | Inr (nof_chars', pa1', pa2') \<Rightarrow>
                  if c \<noteq> Z_UCS_NEWLINE
                  then rewind_loop E fuel h index' (Some last_index') last_index2'
                         wraparounds' nof_chars' pa1' pa2'
                  else Inr (False, last_index', last_nof_wraparounds, nof_chars',
                            pa1', pa2'))))"

text \<open>
  The end of \<open>output_rewind_paragraph\<close>, from \<open>output->first_iteration_done = true\<close>
  on, with the index and the counter that the first part has reached.
\<close>

definition rewind_from_last_char ::
  "env \<Rightarrow> nat \<Rightarrow> OUTPUTHISTORY \<Rightarrow> history_output \<Rightarrow> int \<Rightarrow> 32 word
     \<Rightarrow> error + rewind_result" where
  "rewind_from_last_char E fuel h output index wraparounds =
     (let o1 = output\<lparr>first_iteration_done := True\<rparr> in
      case rewind_loop E fuel h index None None wraparounds 0 None None of
        Inl e \<Rightarrow> Inl e
      | Inr (True, _, _, _, pa1, pa2) \<Rightarrow>
          Inr \<lparr>return_value = 1, char_count_written = None, paragraph_attr1_written = pa1,
               paragraph_attr2_written = pa2,
               output_after = o1\<lparr>found_end_of_buffer := True\<rparr>\<rparr>
      | Inr (False, last_index, last_nof_wraparounds, nof_chars, pa1, pa2) \<Rightarrow>
          (case evaluate_metadata_for_paragraph E fuel h
                  (o1\<lparr>current_paragraph_index := last_index,
                      output_nof_wraparounds := last_nof_wraparounds,
                      metadata_at_index_evaluated := False\<rparr>) of
             Inl e \<Rightarrow> Inl e
           | Inr o2 \<Rightarrow>
               Inr \<lparr>return_value = 0, char_count_written = Some nof_chars, paragraph_attr1_written = pa1,
                    paragraph_attr2_written = pa2, output_after = o2\<rparr>))"

definition output_rewind_paragraph ::
  "env \<Rightarrow> nat \<Rightarrow> OUTPUTHISTORY \<Rightarrow> history_output \<Rightarrow> error + rewind_result" where
  "output_rewind_paragraph E fuel h output =
     (case (if \<not> validation_disabled output then validate_outputhistory h output
            else Inr ()) of
        Inl e \<Rightarrow> Inl e
      | Inr _ \<Rightarrow>
          if z_history_buffer_size h = 0 then
            Inr \<lparr>return_value = - 1, char_count_written = None, paragraph_attr1_written = None,
                 paragraph_attr2_written = None, output_after = output\<rparr>
          else if found_end_of_buffer output then
            Inr \<lparr>return_value = 1, char_count_written = None, paragraph_attr1_written = None,
                 paragraph_attr2_written = None, output_after = output\<rparr>
          else
            (let index = current_paragraph_index output;
                 wraparounds = output_nof_wraparounds output in
             if first_iteration_done output then
               (let o1 = output\<lparr>rewound_paragraph_was_newline_terminated := True\<rparr> in
                case (if \<not> dont_skip_newline o1
                      then (case decrement_buffer_pointer h index wraparounds of
                              (None, _) \<Rightarrow> None
                            | (Some i, w) \<Rightarrow> Some (o1, i, w))
                      else Some (o1\<lparr>dont_skip_newline := False\<rparr>, index, wraparounds)) of
                  None \<Rightarrow>
                    Inr \<lparr>return_value = - 3, char_count_written = None, paragraph_attr1_written = None,
                         paragraph_attr2_written = None, output_after = o1\<rparr>
                | Some (o2, index1, wraparounds1) \<Rightarrow>
                    (case peek h index1 of Inl e \<Rightarrow> Inl e | Inr c \<Rightarrow>
                       if c \<noteq> Z_UCS_NEWLINE then
                         Inr \<lparr>return_value = - 4, char_count_written = None, paragraph_attr1_written = None,
                              paragraph_attr2_written = None, output_after = o2\<rparr>
                       else
                         (case decrement_buffer_pointer h index1 wraparounds1 of
                            (None, _) \<Rightarrow>
                              Inr \<lparr>return_value = 0, char_count_written = None,
                                   paragraph_attr1_written = None, paragraph_attr2_written = None,
                                   output_after = o2\<lparr>
                                     found_end_of_buffer := True,
                                     current_paragraph_index := index1,
                                     output_nof_wraparounds := wraparounds1\<rparr>\<rparr>
                          | (Some index2, wraparounds2) \<Rightarrow>
                              (case peek h index2 of Inl e \<Rightarrow> Inl e | Inr c2 \<Rightarrow>
                                 if c2 = Z_UCS_NEWLINE then
                                   Inr \<lparr>return_value = 0, char_count_written = None,
                                        paragraph_attr1_written = None, paragraph_attr2_written = None,
                                        output_after = o2\<lparr>
                                          current_paragraph_index := index1,
                                          output_nof_wraparounds := wraparounds1\<rparr>\<rparr>
                                 else rewind_from_last_char E fuel h o2 index2
                                        wraparounds2))))
             else
               (case peek h index of Inl e \<Rightarrow> Inl e | Inr c \<Rightarrow>
                  if c = Z_UCS_NEWLINE then
                    Inr \<lparr>return_value = 0, char_count_written = Some 0, paragraph_attr1_written = None,
                         paragraph_attr2_written = None,
                         output_after = output\<lparr>
                           dont_skip_newline := True,
                           first_iteration_done := True,
                           metadata_at_index_evaluated := False,
                           rewound_paragraph_was_newline_terminated := True\<rparr>\<rparr>
                  else rewind_from_last_char E fuel h
                         (output\<lparr>dont_skip_newline := False,
                                 rewound_paragraph_was_newline_terminated := False\<rparr>)
                         index wraparounds)))"

subsection \<open>\<open>alter_last_paragraph_attributes\<close> and \<open>is_output_at_frontindex\<close>\<close>

definition alter_last_paragraph_attributes ::
  "OUTPUTHISTORY \<Rightarrow> history_output \<Rightarrow> int \<Rightarrow> int \<Rightarrow> error + (int \<times> OUTPUTHISTORY)" where
  "alter_last_paragraph_attributes h output paragraph_attr1 paragraph_attr2 =
     (case validate_outputhistory h output of
        Inl e \<Rightarrow> Inl e
      | Inr _ \<Rightarrow>
          (case last_paragraph_attribute_index output of
             None \<Rightarrow> Inr (- 1, h)
           | Some index \<Rightarrow>
               (case poke h index
                       (ucs_of_int (paragraph_attr1 + HISTORY_METADATA_DATA_OFFSET)) of
                  Inl e \<Rightarrow> Inl e
                | Inr h1 \<Rightarrow>
                    (case poke h1
                            (if index + 1 > z_history_buffer_end h1 then 0 else index + 1)
                            (ucs_of_int (paragraph_attr2 + HISTORY_METADATA_DATA_OFFSET)) of
                       Inl e \<Rightarrow> Inl e
                     | Inr h2 \<Rightarrow> Inr (0, h2)))))"

definition is_output_at_frontindex :: "OUTPUTHISTORY \<Rightarrow> history_output \<Rightarrow> error + bool" where
  "is_output_at_frontindex h output =
     (case (if \<not> validation_disabled output then validate_outputhistory h output
            else Inr ()) of
        Inl e \<Rightarrow> Inl e
      | Inr _ \<Rightarrow> Inr (current_paragraph_index output = z_history_buffer_front_index h))"

subsection \<open>\<open>remember_history_output_position\<close> and \<open>restore_history_output_position\<close>\<close>

definition remember_history_output_position ::
  "OUTPUTHISTORY \<Rightarrow> history_output \<Rightarrow> error + history_output" where
  "remember_history_output_position h output =
     (case (if \<not> validation_disabled output then validate_outputhistory h output
            else Inr ()) of
        Inl e \<Rightarrow> Inl e
      | Inr _ \<Rightarrow>
          Inr (output\<lparr>
            saved_current_paragraph_index := current_paragraph_index output,
            saved_nof_wraparounds := output_nof_wraparounds output,
            saved_found_end_of_buffer := found_end_of_buffer output,
            saved_first_iteration_done := first_iteration_done output,
            saved_rewound_paragraph_was_newline_terminated :=
              rewound_paragraph_was_newline_terminated output,
            saved_metadata_at_index_evaluated := metadata_at_index_evaluated output,
            saved_font_at_index := font_at_index output,
            saved_style_at_index := style_at_index output,
            saved_foreground_at_index := foreground_at_index output,
            saved_background_at_index := background_at_index output,
            saved_last_rewinded_paragraphs_block_index :=
              last_rewinded_paragraphs_block_index output,
            saved_last_used_metadata_state_font := last_used_metadata_state_font output,
            saved_last_used_metadata_state_style := last_used_metadata_state_style output,
            saved_last_used_metadata_state_foreground :=
              last_used_metadata_state_foreground output,
            saved_last_used_metadata_state_background :=
              last_used_metadata_state_background output\<rparr>))"

definition restore_history_output_position ::
  "OUTPUTHISTORY \<Rightarrow> history_output \<Rightarrow> error + history_output" where
  "restore_history_output_position h output =
     (case (if \<not> validation_disabled output then validate_outputhistory h output
            else Inr ()) of
        Inl e \<Rightarrow> Inl e
      | Inr _ \<Rightarrow>
          Inr (output\<lparr>
            current_paragraph_index := saved_current_paragraph_index output,
            output_nof_wraparounds := output_nof_wraparounds output,
            found_end_of_buffer := saved_found_end_of_buffer output,
            rewound_paragraph_was_newline_terminated :=
              saved_rewound_paragraph_was_newline_terminated output,
            first_iteration_done := saved_first_iteration_done output,
            metadata_at_index_evaluated := saved_metadata_at_index_evaluated output,
            font_at_index := saved_font_at_index output,
            style_at_index := saved_style_at_index output,
            foreground_at_index := saved_foreground_at_index output,
            background_at_index := saved_background_at_index output,
            last_rewinded_paragraphs_block_index :=
              saved_last_rewinded_paragraphs_block_index output,
            last_used_metadata_state_font := saved_last_used_metadata_state_font output,
            last_used_metadata_state_style := saved_last_used_metadata_state_style output,
            last_used_metadata_state_foreground :=
              saved_last_used_metadata_state_foreground output,
            last_used_metadata_state_background :=
              saved_last_used_metadata_state_background output\<rparr>))"

subsection \<open>\<open>output_repeat_paragraphs\<close>\<close>

definition REPEAT_PARAGRAPH_BUF_SIZE :: nat where
  "REPEAT_PARAGRAPH_BUF_SIZE = 1280"

definition increment_index :: "OUTPUTHISTORY \<Rightarrow> int \<Rightarrow> int" where
  \<comment> \<open>\<open>if (++p > h->z_history_buffer_end) p = h->z_history_buffer_start\<close>\<close>
  "increment_index h p = (if p + 1 > z_history_buffer_end h then 0 else p + 1)"

definition call_target :: "history_output \<Rightarrow> target_call \<Rightarrow> history_output" where
  "call_target output c = output\<lparr>target_calls := target_calls output @ [c]\<rparr>"

text \<open>
  The branch for an escape code unit at \<open>output_ptr\<close>: it returns the cursor, the
  pointer (on the last code unit of the record) and \<open>metadata_type\<close>.
\<close>

definition repeat_metadata ::
  "env \<Rightarrow> OUTPUTHISTORY \<Rightarrow> bool \<Rightarrow> history_output \<Rightarrow> int
     \<Rightarrow> error + (history_output \<times> int \<times> int)" where
  "repeat_metadata E h include_metadata output output_ptr =
     (let p1 = increment_index h output_ptr in
      case peek h p1 of Inl e \<Rightarrow> Inl e | Inr t \<Rightarrow>
        (let metadata_type = int_of_ucs t; p2 = increment_index h p1 in
         case peek h p2 of Inl e \<Rightarrow> Inl e | Inr v \<Rightarrow>
           (let parameter = int_of_ucs v - HISTORY_METADATA_DATA_OFFSET in
            if metadata_type = HISTORY_METADATA_TYPE_FONT E then
              (let o1 = output\<lparr>font_at_index := int16_of_int parameter\<rparr> in
               Inr (if include_metadata then call_target o1 (Set_font parameter) else o1,
                    p2, metadata_type))
            else if metadata_type = HISTORY_METADATA_TYPE_STYLE E then
              (let o1 = output\<lparr>style_at_index := int16_of_int parameter\<rparr> in
               Inr (if include_metadata then call_target o1 (Set_text_style parameter)
                    else o1,
                    p2, metadata_type))
            else if metadata_type = HISTORY_METADATA_TYPE_COLOUR E then
              (let p3 = increment_index h p2 in
               case peek h p3 of Inl e \<Rightarrow> Inl e | Inr v2 \<Rightarrow>
                 (let parameter2 = int_of_ucs v2 - HISTORY_METADATA_DATA_OFFSET;
                      o1 = output\<lparr>foreground_at_index := int16_of_int parameter,
                                   background_at_index := int16_of_int parameter2\<rparr>
                  in Inr (if include_metadata
                          then call_target o1 (Set_colour parameter parameter2 (- 1))
                          else o1,
                          p3, metadata_type)))
            else if metadata_type = HISTORY_METADATA_TYPE_PARAGRAPHATTRIBUTE E then
              Inr (output\<lparr>last_paragraph_attribute_index := Some p2\<rparr>,
                   increment_index h p2, metadata_type)
            else Inl (INVALID_PARAMETER_TYPE ''metadata''))))"

text \<open>
  One iteration of the loop \<open>while (n > 0)\<close>: either the loop is left through one of
  the two \<open>break\<close>s, or the next iteration starts. \<open>output_buf\<close> is the content of
  the staging array below \<open>buf_index\<close>, which is its length.
\<close>

datatype repeat_step =
    Break int int history_output
  | Continue history_output int "z_ucs list" int int

definition repeat_iteration ::
  "env \<Rightarrow> OUTPUTHISTORY \<Rightarrow> bool \<Rightarrow> history_output \<Rightarrow> int \<Rightarrow> z_ucs list \<Rightarrow> int \<Rightarrow> int
     \<Rightarrow> error + repeat_step" where
  "repeat_iteration E h include_metadata output output_ptr output_buf metadata_type n =
     (case peek h output_ptr of Inl e \<Rightarrow> Inl e | Inr c \<Rightarrow>
        (let n1 = (if c = Z_UCS_NEWLINE then n - 1 else n) in
         case (if length output_buf = REPEAT_PARAGRAPH_BUF_SIZE - 1 \<or> n1 < 1
                  \<or> c = HISTORY_METADATA_ESCAPE
                  \<or> output_ptr = z_history_buffer_front_index h
               then
                 (let o1 = call_target output
                             (Z_ucs_output (takeWhile (\<lambda>u. u \<noteq> 0) output_buf)) in
                  if output_ptr = z_history_buffer_front_index h
                  then Inr (Break n1 output_ptr o1)
                  else if n1 < 1 then Inr (Break n1 output_ptr o1)
                  else if c = HISTORY_METADATA_ESCAPE then
                    (case repeat_metadata E h include_metadata o1 output_ptr of
                       Inl e \<Rightarrow> Inl e
                     | Inr (o2, p, t) \<Rightarrow> Inr (Continue o2 p [] t n1))
                  else Inr (Continue o1 output_ptr [] metadata_type n1))
               else Inr (Continue output output_ptr output_buf metadata_type n1)) of
           Inl e \<Rightarrow> Inl e
         | Inr (Break n' p' o') \<Rightarrow> Inr (Break n' p' o')
         | Inr (Continue o' p' buf' t' n') \<Rightarrow>
             (if t' = - 1 then
                (case peek h p' of Inl e \<Rightarrow> Inl e | Inr c' \<Rightarrow>
                   Inr (Continue o' (increment_index h p') (buf' @ [c']) t' n'))
              else Inr (Continue o' (increment_index h p') buf' (- 1) n'))))"

fun repeat_loop ::
  "env \<Rightarrow> nat \<Rightarrow> OUTPUTHISTORY \<Rightarrow> bool \<Rightarrow> history_output \<Rightarrow> int \<Rightarrow> z_ucs list \<Rightarrow> int
     \<Rightarrow> int \<Rightarrow> error + (int \<times> int \<times> history_output)" where
  "repeat_loop E 0 h include_metadata output output_ptr output_buf metadata_type n =
     (if n \<le> 0 then Inr (n, output_ptr, output) else Inl Out_of_fuel)"
| "repeat_loop E (Suc fuel') h include_metadata output output_ptr output_buf metadata_type n =
     (if n \<le> 0 then Inr (n, output_ptr, output)
      else
        (case repeat_iteration E h include_metadata output output_ptr output_buf
                metadata_type n of
           Inl e \<Rightarrow> Inl e
         | Inr (Break n' p' o') \<Rightarrow> Inr (n', p', o')
         | Inr (Continue o' p' buf' t' n') \<Rightarrow>
             repeat_loop E fuel' h include_metadata o' p' buf' t' n'))"

text \<open>
  The three calls with which \<open>output_repeat_paragraphs\<close> sets the target to the state
  of the cursor, and its last block, \<open>if (advance_history_pointer == true)\<close>, for the
  pointer \<open>output_ptr\<close> that the loop has reached.
\<close>

definition repeat_set_target_state :: "history_output \<Rightarrow> history_output" where
  "repeat_set_target_state output =
     call_target
       (call_target (call_target output (Set_font (font_at_index output)))
          (Set_text_style (style_at_index output)))
       (Set_colour (foreground_at_index output) (background_at_index output) (- 1))"

definition repeat_advance_history_pointer ::
  "OUTPUTHISTORY \<Rightarrow> history_output \<Rightarrow> int \<Rightarrow> error + history_output" where
  "repeat_advance_history_pointer h output output_ptr =
     (case (if output_ptr \<noteq> z_history_buffer_front_index h
            then Inr (output\<lparr>current_paragraph_index := output_ptr + 1\<rparr>)
            else (case peek h output_ptr of Inl e \<Rightarrow> Inl e | Inr c \<Rightarrow>
                    Inr (output\<lparr>current_paragraph_index := output_ptr,
                                first_iteration_done := False,
                                rewound_paragraph_was_newline_terminated :=
                                  (c = Z_UCS_NEWLINE)\<rparr>))) of
        Inl e \<Rightarrow> Inl e
      | Inr o1 \<Rightarrow> (case peek h output_ptr of Inl e \<Rightarrow> Inl e | Inr _ \<Rightarrow> Inr o1))"

definition output_repeat_paragraphs ::
  "env \<Rightarrow> nat \<Rightarrow> OUTPUTHISTORY \<Rightarrow> history_output \<Rightarrow> int \<Rightarrow> bool \<Rightarrow> bool
     \<Rightarrow> error + (int \<times> history_output)" where
  "output_repeat_paragraphs E fuel h output n include_metadata advance_history_pointer =
     (case (if \<not> validation_disabled output then validate_outputhistory h output
            else Inr ()) of
        Inl e \<Rightarrow> Inl e
      | Inr _ \<Rightarrow>
          (case (if include_metadata then evaluate_metadata_for_paragraph E fuel h output
                 else Inr output) of
             Inl e \<Rightarrow> Inl e
           | Inr o1 \<Rightarrow>
               (case (if current_paragraph_index output = z_history_buffer_front_index h
                      then Inr (- 1, current_paragraph_index output,
                                (repeat_set_target_state o1)
                                  \<lparr>found_end_of_buffer :=
                                     (if advance_history_pointer then False
                                      else found_end_of_buffer o1)\<rparr>)
                      else repeat_loop E fuel h include_metadata
                             ((repeat_set_target_state o1)
                                \<lparr>found_end_of_buffer :=
                                   (if advance_history_pointer then False
                                    else found_end_of_buffer o1)\<rparr>)
                             (current_paragraph_index output) [] (- 1) n) of
                  Inl e \<Rightarrow> Inl e
                | Inr (n', output_ptr, o2) \<Rightarrow>
                    if advance_history_pointer then
                      (case repeat_advance_history_pointer h o2 output_ptr of
                         Inl e \<Rightarrow> Inl e | Inr o3 \<Rightarrow> Inr (n', o3))
                    else Inr (n', o2))))"

subsection \<open>Concrete runs\<close>

text \<open>
  The environment of the concrete runs below: type codes 1 to 4, state blocks of 256 code
  units, no paragraph removal function, a \<open>realloc\<close> that always succeeds and returns
  zeroed memory, a little-endian machine.
\<close>

definition example_env :: env where
  "example_env =
     \<lparr> HISTORY_METADATA_TYPE_FONT = 1,
       HISTORY_METADATA_TYPE_STYLE = 2,
       HISTORY_METADATA_TYPE_COLOUR = 3,
       HISTORY_METADATA_TYPE_PARAGRAPHATTRIBUTE = 4,
       Z_HISTORY_METADATA_STATE_BLOCK_SIZE = 256,
       paragraph_removal_function = False,
       realloc_succeeds = (\<lambda>n. True),
       fresh_memory = (\<lambda>i. 0),
       little_endian = True \<rparr>"

text \<open>The memory of a newly allocated cursor in the concrete runs: all zero.\<close>

definition fresh_output :: history_output where
  "fresh_output =
     \<lparr> validity_wraparounds = 0, validity_frontindex = 0,
       rewound_paragraph_was_newline_terminated = False, validation_disabled = False,
       last_rewinded_paragraphs_block_index = 0, last_used_metadata_state_font = 0,
       last_used_metadata_state_style = 0, last_used_metadata_state_foreground = 0,
       last_used_metadata_state_background = 0, last_paragraph_attribute_index = None,
       dont_skip_newline = False, current_paragraph_index = 0, font_at_index = 0,
       style_at_index = 0, foreground_at_index = 0, background_at_index = 0,
       found_end_of_buffer = False, output_nof_wraparounds = 0,
       first_iteration_done = False, metadata_at_index_evaluated = False,
       saved_current_paragraph_index = 0, saved_nof_wraparounds = 0,
       saved_found_end_of_buffer = False, saved_first_iteration_done = False,
       saved_rewound_paragraph_was_newline_terminated = False,
       saved_metadata_at_index_evaluated = False, saved_font_at_index = 0,
       saved_style_at_index = 0, saved_foreground_at_index = 0,
       saved_background_at_index = 0, saved_last_rewinded_paragraphs_block_index = 0,
       saved_last_used_metadata_state_font = 0, saved_last_used_metadata_state_style = 0,
       saved_last_used_metadata_state_foreground = 0,
       saved_last_used_metadata_state_background = 0, target_calls = [] \<rparr>"

definition and_then :: "error + 'a \<Rightarrow> ('a \<Rightarrow> error + 'b) \<Rightarrow> error + 'b" where
  \<comment> \<open>the next call of a run, made if the calls before it have returned\<close>
  "and_then m f = (case m of Inl e \<Rightarrow> Inl e | Inr x \<Rightarrow> f x)"

definition init_from_front :: "OUTPUTHISTORY \<Rightarrow> error + history_output" where
  \<comment> \<open>a cursor from the buffer front, with validation; a run stops where the C function
      returns NULL\<close>
  "init_from_front h =
     (case init_history_output h False False fresh_output of
        None \<Rightarrow> Inl Out_of_bounds | Some c \<Rightarrow> Inr c)"

text \<open>
  Scenario 1 of the spec: a history with \<open>Nmax = 64\<close>, \<open>Ninc = 16\<close>, white (9) on
  black (2), font 1 and style 0, and the text \<open>Hello\<close> with its newline stored in it.
\<close>

definition text_hello :: "z_ucs list" where
  "text_hello = [72, 101, 108, 108, 111, 10]"

definition history_hello :: "error + OUTPUTHISTORY" where
  "history_hello =
     store_z_ucs_output_in_history example_env 100
       (create_outputhistory 0 64 16 9 2 1 0) (Some text_hello)"

text \<open>
  A history of at most 8 code units that has wrapped around: \<open>abc\<close>, \<open>def\<close> and
  \<open>gh\<close>, each with its newline, stored one after the other.
\<close>

definition history_wrapped :: "error + OUTPUTHISTORY" where
  "history_wrapped =
     and_then (store_z_ucs_output_in_history example_env 100
                 (create_outputhistory 0 8 8 9 2 1 0) (Some [97, 98, 99, 10]))
       (\<lambda>h. and_then (store_z_ucs_output_in_history example_env 100 h
                         (Some [100, 101, 102, 10]))
          (\<lambda>h. store_z_ucs_output_in_history example_env 100 h (Some [103, 104, 10])))"

definition history_summary ::
  "OUTPUTHISTORY \<Rightarrow> z_ucs list \<times> int \<times> int \<times> 32 word" where
  \<comment> \<open>the buffer, front, back and the number of wrap-arounds\<close>
  "history_summary h =
     (z_history_buffer h, z_history_buffer_front_index h, z_history_buffer_back_index h,
      nof_wraparounds h)"

definition front_state :: "OUTPUTHISTORY \<Rightarrow> int \<times> int \<times> int \<times> int" where
  \<comment> \<open>font, style, foreground and background at the buffer front\<close>
  "front_state h =
     (history_buffer_front_index_font h, history_buffer_front_index_style h,
      history_buffer_front_index_foreground h, history_buffer_front_index_background h)"

definition back_state :: "OUTPUTHISTORY \<Rightarrow> int \<times> int \<times> int \<times> int" where
  "back_state h =
     (history_buffer_back_index_font h, history_buffer_back_index_style h,
      history_buffer_back_index_foreground h, history_buffer_back_index_background h)"

definition state_at_index :: "history_output \<Rightarrow> int \<times> int \<times> int \<times> int" where
  \<comment> \<open>font, style, foreground and background of the cursor\<close>
  "state_at_index c =
     (font_at_index c, style_at_index c, foreground_at_index c, background_at_index c)"

text \<open>A full buffer's worth of text stored into the wrapped history.\<close>

definition history_overfull :: "error + OUTPUTHISTORY" where
  "history_overfull =
     and_then history_wrapped
       (\<lambda>h. store_z_ucs_output_in_history example_env 100 h
               (Some [65, 66, 67, 68, 69, 70, 71, 72]))"

text \<open>A colour record (foreground 4, background 6) stored into a new history.\<close>

definition history_colour :: "error + (int \<times> OUTPUTHISTORY)" where
  "history_colour =
     store_metadata_in_history example_env 100 (create_outputhistory 0 64 16 9 2 1 0)
       (HISTORY_METADATA_TYPE_COLOUR example_env) 4 6"

text \<open>
  On the wrapped history: a cursor from the front rewinds twice, remembers its position,
  rewinds once more (across the buffer start) and restores the position.
\<close>

definition cursor_remembered :: "error + history_output" where
  "cursor_remembered =
     and_then history_wrapped (\<lambda>h.
     and_then (init_from_front h) (\<lambda>c.
     and_then (output_rewind_paragraph example_env 100 h c) (\<lambda>r1.
     and_then (output_rewind_paragraph example_env 100 h (output_after r1)) (\<lambda>r2.
     remember_history_output_position h (output_after r2)))))"

definition cursor_restored :: "error + history_output" where
  "cursor_restored =
     and_then history_wrapped (\<lambda>h.
     and_then cursor_remembered (\<lambda>c.
     and_then (output_rewind_paragraph example_env 100 h c) (\<lambda>r3.
     restore_history_output_position h (output_after r3))))"

text \<open>
  The text \<open>A\<close> with its newline and then a colour record (foreground 4, background 6)
  stored into a new white-on-black history; a cursor from the front rewinds once.
\<close>

definition history_a_colour :: "error + OUTPUTHISTORY" where
  "history_a_colour =
     and_then (store_z_ucs_output_in_history example_env 100
                 (create_outputhistory 0 64 16 9 2 1 0) (Some [65, 10]))
       (\<lambda>h. map_sum id snd
               (store_metadata_in_history example_env 100 h
                  (HISTORY_METADATA_TYPE_COLOUR example_env) 4 6))"

definition rewind_a_colour :: "error + rewind_result" where
  "rewind_a_colour =
     and_then history_a_colour (\<lambda>h.
     and_then (init_from_front h) (\<lambda>c. output_rewind_paragraph example_env 100 h c))"

text \<open>
  The state of the history of scenario 1, and its state after one more character
  (\<open>x\<close>) has been stored; two cursors created from the front of the first of them, one
  with validation and one without.
\<close>

definition state_hello :: OUTPUTHISTORY where
  "state_hello =
     (create_outputhistory 0 64 16 9 2 1 0)
       \<lparr> z_history_buffer_size := 16,
         z_history_buffer := text_hello @ replicate 11 0,
         z_history_buffer_end := 15,
         z_history_buffer_front_index := 6 \<rparr>"

definition state_hello_x :: OUTPUTHISTORY where
  "state_hello_x =
     state_hello
       \<lparr> z_history_buffer := text_hello @ [120] @ replicate 10 0,
         z_history_buffer_front_index := 7 \<rparr>"

definition cursor_hello :: "bool \<Rightarrow> history_output" where
  "cursor_hello without_validation =
     (case init_history_output state_hello False without_validation fresh_output of
        None \<Rightarrow> fresh_output | Some c \<Rightarrow> c)"

text \<open>The first rewind of a cursor from the front of the history of scenario 1.\<close>

definition rewind_hello :: "error + rewind_result" where
  "rewind_hello =
     and_then history_hello (\<lambda>h.
     and_then (init_from_front h) (\<lambda>c. output_rewind_paragraph example_env 100 h c))"



text \<open>
  The text \<open>wxyz\<close>, a font record (font 2) and the text \<open>b\<close> stored into a new
  history, and four characters removed again.
\<close>

definition history_font :: "error + OUTPUTHISTORY" where
  "history_font =
     and_then (store_z_ucs_output_in_history example_env 100
                 (create_outputhistory 0 64 16 9 2 1 0) (Some [119, 120, 121, 122]))
       (\<lambda>h. and_then (store_metadata_in_history example_env 100 h
                         (HISTORY_METADATA_TYPE_FONT example_env) 2 0)
          (\<lambda>(_, h). store_z_ucs_output_in_history example_env 100 h (Some [98])))"

definition history_font_removed :: "error + (int \<times> OUTPUTHISTORY)" where
  "history_font_removed =
     and_then history_font (\<lambda>h. remove_chars_from_history example_env 100 h 4)"

text \<open>
  The pointer and the counter after \<open>k\<close> calls of \<open>decrement_buffer_pointer\<close>, that
  is, \<open>k\<close> code units further back; \<open>None\<close> if one of the calls returns NULL.
\<close>

fun back_steps ::
  "OUTPUTHISTORY \<Rightarrow> nat \<Rightarrow> int \<Rightarrow> 32 word \<Rightarrow> (int \<times> 32 word) option" where
  "back_steps h 0 ptr wraparounds = Some (ptr, wraparounds)"
| "back_steps h (Suc k) ptr wraparounds =
     (case decrement_buffer_pointer h ptr wraparounds of
        (None, _) \<Rightarrow> None
      | (Some ptr', wraparounds') \<Rightarrow> back_steps h k ptr' wraparounds')"

text \<open>
  What \<open>process_buffer_back\<close> leaves alone: everything but the state at the back,
  the cached newline position and the calls of the paragraph removal function.
\<close>

definition undrained ::
  "OUTPUTHISTORY \<Rightarrow>
     (int \<times> int \<times> int \<times> int) \<times> 32 word \<times> z_ucs list \<times> int \<times> int \<times> int \<times> nat \<times> nat" where
  "undrained h =
     (front_state h, nof_wraparounds h, z_history_buffer h, z_history_buffer_front_index h,
      z_history_buffer_back_index h, z_history_buffer_end h, z_history_buffer_size h,
      z_history_maximum_buffer_size h)"

subsection \<open>What a cursor has in front of it\<close>

text \<open>
  The content of the history as the spec describes it: ordinary text and the four kinds
  of metadata records, the parameters of a record as the code units stored for them.
\<close>

datatype item =
    Text z_ucs
  | Font_record z_ucs
  | Style_record z_ucs
  | Colour_record z_ucs z_ucs
  | Paragraph_attribute_record z_ucs z_ucs

fun encode_item :: "env \<Rightarrow> item \<Rightarrow> z_ucs list" where
  "encode_item E (Text c) = [c]"
| "encode_item E (Font_record v) =
     [HISTORY_METADATA_ESCAPE, ucs_of_int (HISTORY_METADATA_TYPE_FONT E), v]"
| "encode_item E (Style_record v) =
     [HISTORY_METADATA_ESCAPE, ucs_of_int (HISTORY_METADATA_TYPE_STYLE E), v]"
| "encode_item E (Colour_record fg bg) =
     [HISTORY_METADATA_ESCAPE, ucs_of_int (HISTORY_METADATA_TYPE_COLOUR E), fg, bg]"
| "encode_item E (Paragraph_attribute_record a1 a2) =
     [HISTORY_METADATA_ESCAPE, ucs_of_int (HISTORY_METADATA_TYPE_PARAGRAPHATTRIBUTE E),
      a1, a2]"

definition encode :: "env \<Rightarrow> item list \<Rightarrow> z_ucs list" where
  "encode E items = concat (map (encode_item E) items)"

fun is_text :: "item \<Rightarrow> bool" where
  "is_text (Text c) = (c \<noteq> HISTORY_METADATA_ESCAPE)"
| "is_text _ = True"

text \<open>The pointer \<open>k\<close> code units further on, with the wrap at the buffer end.\<close>

fun forward :: "OUTPUTHISTORY \<Rightarrow> int \<Rightarrow> nat \<Rightarrow> int" where
  "forward h p 0 = p"
| "forward h p (Suc k) = forward h (increment_index h p) k"

text \<open>
  The items lie in the buffer from the pointer \<open>p\<close> up to the front: their code units
  are what is read at \<open>p\<close> and the pointers behind it, none of these pointers is the
  front, the pointer behind the last of them is, no text is the escape, and what is read
  at the front itself is not a newline.
\<close>

definition laid_out :: "env \<Rightarrow> OUTPUTHISTORY \<Rightarrow> int \<Rightarrow> item list \<Rightarrow> bool" where
  "laid_out E h p items =
     (list_all (\<lambda>k. forward h p k \<noteq> z_history_buffer_front_index h
                    \<and> peek h (forward h p k) = Inr (encode E items ! k))
        [0 ..< length (encode E items)]
      \<and> forward h p (length (encode E items)) = z_history_buffer_front_index h
      \<and> list_all is_text items
      \<and> (case peek h (z_history_buffer_front_index h) of
            Inl _ \<Rightarrow> False | Inr c \<Rightarrow> c \<noteq> Z_UCS_NEWLINE))"





text \<open>The text that the target has been sent, over all calls of \<open>z_ucs_output\<close>.\<close>

fun texts_of_calls :: "target_call list \<Rightarrow> z_ucs list" where
  "texts_of_calls [] = []"
| "texts_of_calls (Z_ucs_output s # cs) = s @ texts_of_calls cs"
| "texts_of_calls (_ # cs) = texts_of_calls cs"

definition texts_sent :: "history_output \<Rightarrow> z_ucs list" where
  "texts_sent output = texts_of_calls (target_calls output)"

subsection \<open>Concrete runs of \<open>output_repeat_paragraphs\<close> and \<open>remove_chars_from_history\<close>\<close>

text \<open>A cursor from the front of a history, rewound \<open>k\<close> times.\<close>

fun rewinds :: "nat \<Rightarrow> OUTPUTHISTORY \<Rightarrow> history_output \<Rightarrow> error + history_output" where
  "rewinds 0 h c = Inr c"
| "rewinds (Suc k) h c =
     and_then (output_rewind_paragraph example_env 100 h c)
       (\<lambda>r. rewinds k h (output_after r))"

definition cursor_rewound :: "OUTPUTHISTORY \<Rightarrow> nat \<Rightarrow> error + history_output" where
  "cursor_rewound h k = and_then (init_from_front h) (rewinds k h)"





text \<open>
  A history of at most 8 code units that is full and has not wrapped: \<open>abcd\<close> and
  \<open>efgh\<close> stored one after the other, so that the front is one behind the buffer end.
  The cursor from its front after one rewind.
\<close>

definition history_full :: "error + OUTPUTHISTORY" where
  "history_full =
     and_then (store_z_ucs_output_in_history example_env 100
                 (create_outputhistory 0 8 8 9 2 1 0) (Some [97, 98, 99, 100]))
       (\<lambda>h. store_z_ucs_output_in_history example_env 100 h (Some [101, 102, 103, 104]))"

definition state_full :: OUTPUTHISTORY where
  "state_full =
     (case history_full of Inl _ \<Rightarrow> create_outputhistory 0 8 8 9 2 1 0 | Inr h \<Rightarrow> h)"

definition cursor_full :: history_output where
  "cursor_full =
     (case cursor_rewound state_full 1 of Inl _ \<Rightarrow> fresh_output | Inr c \<Rightarrow> c)"

text \<open>
  The same with two paragraphs, \<open>abc\<close> and \<open>def\<close>, each with its newline; the cursor
  from the front after two rewinds is at the \<open>d\<close>, and is asked for three paragraphs.
\<close>

definition history_full_paragraphs :: "error + OUTPUTHISTORY" where
  "history_full_paragraphs =
     and_then (store_z_ucs_output_in_history example_env 100
                 (create_outputhistory 0 8 8 9 2 1 0) (Some [97, 98, 99, 10]))
       (\<lambda>h. store_z_ucs_output_in_history example_env 100 h (Some [100, 101, 102, 10]))"

definition repeat_full_paragraphs :: "error + (int \<times> history_output)" where
  "repeat_full_paragraphs =
     and_then history_full_paragraphs (\<lambda>h.
     and_then (cursor_rewound h 2) (\<lambda>c.
     output_repeat_paragraphs example_env 100 h c 3 False False))"

text \<open>
  The history of scenario 1 with its last character, the newline, removed again: the
  front is at the newline, which is still in the buffer. The cursor from the front after
  one rewind is at the \<open>o\<close>, and is asked for two paragraphs.
\<close>

definition history_newline_removed :: "error + OUTPUTHISTORY" where
  "history_newline_removed =
     and_then history_hello
       (\<lambda>h. map_sum id snd (remove_chars_from_history example_env 100 h 1))"

definition repeat_newline_removed :: "error + (int \<times> history_output)" where
  "repeat_newline_removed =
     and_then history_newline_removed (\<lambda>h.
     and_then (cursor_rewound h 1) (\<lambda>c.
     output_repeat_paragraphs example_env 100 h c 2 False False))"

text \<open>
  A font record (font 2) and the text \<open>b\<close> stored into a new history, three
  characters removed again, and then the text \<open>x\<close> stored.
\<close>

definition history_font_b :: "error + OUTPUTHISTORY" where
  "history_font_b =
     and_then (store_metadata_in_history example_env 100
                 (create_outputhistory 0 64 16 9 2 1 0)
                 (HISTORY_METADATA_TYPE_FONT example_env) 2 0)
       (\<lambda>(_, h). store_z_ucs_output_in_history example_env 100 h (Some [98]))"

definition history_font_b_removed :: "error + (int \<times> OUTPUTHISTORY)" where
  "history_font_b_removed =
     and_then history_font_b (\<lambda>h. remove_chars_from_history example_env 100 h 3)"

definition history_font_b_overwritten :: "error + OUTPUTHISTORY" where
  "history_font_b_overwritten =
     and_then history_font_b_removed
       (\<lambda>(_, h). store_z_ucs_output_in_history example_env 100 h (Some [120]))"

section \<open>Properties\<close>

subsection \<open>The concrete states\<close>

lemma history_hello_state: "history_hello = Inr state_hello"
  by code_simp



lemma validate_outputhistory_fails:
  "nof_wraparounds h \<noteq> validity_wraparounds c
     \<or> z_history_buffer_front_index h \<noteq> validity_frontindex c \<Longrightarrow>
   validate_outputhistory h c = Inl HISTORYOUTPUT_NO_LONGER_VALID"
  by (auto simp: validate_outputhistory_def)

subsection \<open>Cursor validation\<close>




subsection \<open>Operations that do not validate\<close>

lemma peek_not_invalid: "peek h p \<noteq> Inl HISTORYOUTPUT_NO_LONGER_VALID"
  by (simp add: peek_def)

lemma peek_ptr_not_invalid: "peek_ptr h p \<noteq> Inl HISTORYOUTPUT_NO_LONGER_VALID"
  by (simp add: peek_ptr_def peek_not_invalid split: option.splits)

lemma sum_bind_not:
  "m \<noteq> Inl V \<Longrightarrow> (\<And>x. f x \<noteq> Inl V) \<Longrightarrow>
   (case m of Inl e \<Rightarrow> Inl e | Inr x \<Rightarrow> f x) \<noteq> Inl V"
  by (cases m) auto

lemma evaluate_metadata_loop_not_invalid:
  "evaluate_metadata_loop E fuel h c index i2 i3 w \<noteq> Inl HISTORYOUTPUT_NO_LONGER_VALID"
proof (induction fuel arbitrary: c index i2 i3 w)
  case 0
  show ?case by simp
next
  case (Suc fuel)
  show ?case
    by (auto simp: Let_def Suc peek_not_invalid peek_ptr_not_invalid
             split: prod.splits option.splits sum.splits)
qed

lemma rewind_loop_not_invalid:
  "rewind_loop E fuel h index li li2 w n pa1 pa2 \<noteq> Inl HISTORYOUTPUT_NO_LONGER_VALID"
proof (induction fuel arbitrary: index li li2 w n pa1 pa2)
  case 0
  show ?case by simp
next
  case (Suc fuel)
  show ?case
    by (auto simp: Let_def Suc peek_not_invalid peek_ptr_not_invalid
             split: prod.splits option.splits sum.splits)
qed

lemma evaluate_metadata_not_invalid:
  "validation_disabled c \<Longrightarrow>
   evaluate_metadata_for_paragraph E fuel h c \<noteq> Inl HISTORYOUTPUT_NO_LONGER_VALID"
  by (auto simp: evaluate_metadata_for_paragraph_def Let_def evaluate_metadata_loop_not_invalid
           split: sum.splits)

lemma rewind_from_last_char_not_invalid:
  "validation_disabled c \<Longrightarrow>
   rewind_from_last_char E fuel h c index w \<noteq> Inl HISTORYOUTPUT_NO_LONGER_VALID"
  using rewind_loop_not_invalid [of E fuel h index None None w 0 None None]
  by (auto simp: rewind_from_last_char_def Let_def evaluate_metadata_not_invalid
           split: sum.splits prod.splits bool.splits)

lemma output_rewind_paragraph_not_invalid:
  "validation_disabled c \<Longrightarrow>
   output_rewind_paragraph E fuel h c \<noteq> Inl HISTORYOUTPUT_NO_LONGER_VALID"
  by (auto simp: output_rewind_paragraph_def Let_def peek_not_invalid
                 rewind_from_last_char_not_invalid
           split: sum.splits prod.splits option.splits)

lemma repeat_metadata_not_invalid:
  "repeat_metadata E h im c p \<noteq> Inl HISTORYOUTPUT_NO_LONGER_VALID"
  by (auto simp: repeat_metadata_def Let_def peek_not_invalid split: sum.splits)

lemma repeat_iteration_not_invalid:
  "repeat_iteration E h im c p buf t n \<noteq> Inl HISTORYOUTPUT_NO_LONGER_VALID"
  by (auto simp: repeat_iteration_def Let_def peek_not_invalid repeat_metadata_not_invalid
           split: sum.splits repeat_step.splits prod.splits)

lemma repeat_loop_not_invalid:
  "repeat_loop E fuel h im c p buf t n \<noteq> Inl HISTORYOUTPUT_NO_LONGER_VALID"
proof (induction fuel arbitrary: c p buf t n)
  case 0
  show ?case by simp
next
  case (Suc fuel)
  show ?case
    by (auto simp: Suc repeat_iteration_not_invalid split: sum.splits repeat_step.splits)
qed

lemma repeat_advance_not_invalid:
  "repeat_advance_history_pointer h c p \<noteq> Inl HISTORYOUTPUT_NO_LONGER_VALID"
  by (auto simp: repeat_advance_history_pointer_def peek_not_invalid split: sum.splits)

lemma output_repeat_paragraphs_not_invalid:
  assumes "validation_disabled c"
  shows "output_repeat_paragraphs E fuel h c n im adv \<noteq> Inl HISTORYOUTPUT_NO_LONGER_VALID"
  unfolding output_repeat_paragraphs_def
  apply (rule sum_bind_not)
   apply (simp add: assms)
  apply (rule sum_bind_not)
   apply (simp add: assms evaluate_metadata_not_invalid)
  apply (rule sum_bind_not)
   apply (simp add: repeat_loop_not_invalid)
  apply (auto simp: repeat_advance_not_invalid split: prod.splits sum.splits)
  done

text \<open>
  C10: \<open>alter_last_paragraph_attributes\<close> validates its cursor whether or not the
  cursor was created with NO_VALIDATION: once the history's front or number of
  wrap-arounds differs from what the cursor has captured, the call ends in the fatal
  exit. Every other operation on a cursor with validation disabled skips the validation:
  none of them ends with the message HISTORYOUTPUT_NO_LONGER_VALID.
\<close>

theorem alter_validates_without_regard_to_flag:
  assumes "nof_wraparounds h \<noteq> validity_wraparounds c
      \<or> z_history_buffer_front_index h \<noteq> validity_frontindex c"
  shows "alter_last_paragraph_attributes h c a1 a2 = Inl HISTORYOUTPUT_NO_LONGER_VALID
    \<and> (validation_disabled c \<longrightarrow>
          output_rewind_paragraph E fuel h c \<noteq> Inl HISTORYOUTPUT_NO_LONGER_VALID
        \<and> output_repeat_paragraphs E fuel h c n include_metadata advance_history_pointer
            \<noteq> Inl HISTORYOUTPUT_NO_LONGER_VALID
        \<and> remember_history_output_position h c \<noteq> Inl HISTORYOUTPUT_NO_LONGER_VALID
        \<and> restore_history_output_position h c \<noteq> Inl HISTORYOUTPUT_NO_LONGER_VALID
        \<and> is_output_at_frontindex h c \<noteq> Inl HISTORYOUTPUT_NO_LONGER_VALID
        \<and> evaluate_metadata_for_paragraph E fuel h c \<noteq> Inl HISTORYOUTPUT_NO_LONGER_VALID)"
proof -
  have "alter_last_paragraph_attributes h c a1 a2 = Inl HISTORYOUTPUT_NO_LONGER_VALID"
    by (simp add: alter_last_paragraph_attributes_def validate_outputhistory_fails [OF assms])
  moreover have "validation_disabled c \<Longrightarrow>
      remember_history_output_position h c \<noteq> Inl HISTORYOUTPUT_NO_LONGER_VALID"
    by (simp add: remember_history_output_position_def)
  moreover have "validation_disabled c \<Longrightarrow>
      restore_history_output_position h c \<noteq> Inl HISTORYOUTPUT_NO_LONGER_VALID"
    by (simp add: restore_history_output_position_def)
  moreover have "validation_disabled c \<Longrightarrow>
      is_output_at_frontindex h c \<noteq> Inl HISTORYOUTPUT_NO_LONGER_VALID"
    by (simp add: is_output_at_frontindex_def)
  ultimately show ?thesis
    by (simp add: output_rewind_paragraph_not_invalid output_repeat_paragraphs_not_invalid
          evaluate_metadata_not_invalid)
qed

text \<open>
  The theorem at scenario 5 of the spec, for the cursor without validation: the
  alteration fails, the rewind returns 0.
\<close>

theorem alter_validates_without_regard_to_flag_witness:
  "z_history_buffer_front_index state_hello_x \<noteq> validity_frontindex (cursor_hello True)
   \<and> validation_disabled (cursor_hello True)
   \<and> alter_last_paragraph_attributes state_hello_x (cursor_hello True) 7 8
       = Inl HISTORYOUTPUT_NO_LONGER_VALID
   \<and> map_sum id return_value
        (output_rewind_paragraph example_env 100 state_hello_x (cursor_hello True)) = Inr 0
   \<and> output_repeat_paragraphs example_env 100 state_hello_x (cursor_hello True) 1 True True
       \<noteq> Inl HISTORYOUTPUT_NO_LONGER_VALID
   \<and> remember_history_output_position state_hello_x (cursor_hello True)
       \<noteq> Inl HISTORYOUTPUT_NO_LONGER_VALID
   \<and> restore_history_output_position state_hello_x (cursor_hello True)
       \<noteq> Inl HISTORYOUTPUT_NO_LONGER_VALID
   \<and> is_output_at_frontindex state_hello_x (cursor_hello True)
       \<noteq> Inl HISTORYOUTPUT_NO_LONGER_VALID
   \<and> evaluate_metadata_for_paragraph example_env 100 state_hello_x (cursor_hello True)
       \<noteq> Inl HISTORYOUTPUT_NO_LONGER_VALID"
proof -
  have front: "z_history_buffer_front_index state_hello_x
      \<noteq> validity_frontindex (cursor_hello True)"
    by code_simp
  have mismatch: "nof_wraparounds state_hello_x \<noteq> validity_wraparounds (cursor_hello True)
      \<or> z_history_buffer_front_index state_hello_x \<noteq> validity_frontindex (cursor_hello True)"
    using front by simp
  have disabled: "validation_disabled (cursor_hello True)"
    by code_simp
  have rewind: "map_sum id return_value
      (output_rewind_paragraph example_env 100 state_hello_x (cursor_hello True)) = Inr 0"
    by code_simp
  show ?thesis
    using alter_validates_without_regard_to_flag [OF mismatch, of 7 8 example_env 100 1 True True]
      front disabled rewind
    by simp
qed

subsection \<open>The first rewind of scenario 1\<close>

lemma c_rem_small: "0 \<le> a \<Longrightarrow> a < b \<Longrightarrow> c_rem a b = a"
  by (simp add: c_rem_def sgn_if)

text \<open>
  C8 (as amended): on a history created with \<open>Nmax = 64\<close>, \<open>Ninc = 16\<close>, after
  \<open>store_text\<close> of \<open>Hello\<close> with its newline, the first call of
  \<open>output_rewind_paragraph\<close> on a cursor from the buffer front returns 0 with a
  character count of 0 (the last code unit is the newline, and the call returns from its
  first iteration), \<open>rewound_paragraph_was_newline_terminated\<close> set, and the state
  (white, black, the font and the style of the creation) in the cursor. This holds for
  every state block size above 6, whenever the allocation of 16 code units succeeds.
\<close>

theorem rewind_hello_first_call:
  assumes block: "6 < Z_HISTORY_METADATA_STATE_BLOCK_SIZE E"
    and realloc: "realloc_succeeds E 16"
  shows "\<exists>h c r.
      store_z_ucs_output_in_history E fuel
        (create_outputhistory window 64 16 white black font style) (Some text_hello) = Inr h
    \<and> init_history_output h False without_validation fresh = Some c
    \<and> output_rewind_paragraph E fuel h c = Inr r
    \<and> return_value r = 0
    \<and> char_count_written r = Some 0
    \<and> rewound_paragraph_was_newline_terminated (output_after r)
    \<and> state_at_index (output_after r) = (font, style, white, black)"
proof -
  define h where "h = (create_outputhistory window 64 16 white black font style)
       \<lparr> z_history_buffer_size := 16,
         z_history_buffer := text_hello @ map (fresh_memory E) [6 ..< 16] @ [0],
         z_history_buffer_end := 15,
         z_history_buffer_front_index := 6 \<rparr>"
  have rem: "c_rem 6 (Z_HISTORY_METADATA_STATE_BLOCK_SIZE E) = 6"
    using block by (simp add: c_rem_small)
  have nz: "Z_HISTORY_METADATA_STATE_BLOCK_SIZE E \<noteq> 0"
    using block by simp
  have upt: "[0..<17] = [0,1,2,3,4,5,6,7,8,9,10,11,12,13,14,15,16]" 
    by (simp add: upt_rec)
  have upt2: "[6..<16] = [6,7,8,9,10,11,12,13,14,15]" 
    by (simp add: upt_rec)
  have store: "store_z_ucs_output_in_history E fuel
        (create_outputhistory window 64 16 white black font style) (Some text_hello) = Inr h"
    by (simp add: h_def store_z_ucs_output_in_history_def z_ucs_len_def text_hello_def
          store_data_in_history_def store_data_in_history_body_def create_outputhistory_def
          store_data_enlarge_def store_data_regular_def
          get_buffer_space_available_def try_to_enlarge_buffer_def realloc
          size_t_of_int_def z_ucs_ncpy_def write_metadata_state_block_if_necessary_def
          rem nz upt upt2 Let_def)
  define c where "c = fresh\<lparr>
       validity_wraparounds := 0,
       validity_frontindex := 6,
       rewound_paragraph_was_newline_terminated := False,
       validation_disabled := without_validation,
       last_rewinded_paragraphs_block_index := - 1,
       last_used_metadata_state_font := - 1,
       last_used_metadata_state_style := - 1,
       last_used_metadata_state_foreground := Z_COLOUR_UNDEFINED,
       last_used_metadata_state_background := Z_COLOUR_UNDEFINED,
       last_paragraph_attribute_index := None,
       dont_skip_newline := False,
       current_paragraph_index := 5,
       font_at_index := font,
       style_at_index := style,
       foreground_at_index := white,
       background_at_index := black,
       found_end_of_buffer := False,
       output_nof_wraparounds := 0,
       first_iteration_done := False\<rparr>"
  have init: "init_history_output h False without_validation fresh = Some c"
    by (simp add: h_def c_def init_history_output_def decrement_buffer_pointer_def
          create_outputhistory_def Let_def)
  have valid: "validate_outputhistory h c = Inr ()"
    by (simp add: validate_outputhistory_def h_def c_def create_outputhistory_def)
  have newline: "peek h 5 = Inr Z_UCS_NEWLINE"
    by (simp add: peek_def h_def text_hello_def Z_UCS_NEWLINE_def)
  have fields: "z_history_buffer_size h \<noteq> 0" "\<not> found_end_of_buffer c"
    "\<not> first_iteration_done c" "current_paragraph_index c = 5"
    by (simp_all add: h_def c_def)
  let ?r = "\<lparr>return_value = 0, char_count_written = Some 0,
      paragraph_attr1_written = None, paragraph_attr2_written = None,
      output_after = c\<lparr>dont_skip_newline := True, first_iteration_done := True,
        metadata_at_index_evaluated := False,
        rewound_paragraph_was_newline_terminated := True\<rparr>\<rparr>"
  have rewind: "output_rewind_paragraph E fuel h c = Inr ?r"
    by (simp add: output_rewind_paragraph_def valid newline fields Let_def)
  have state: "state_at_index (output_after ?r) = (font, style, white, black)"
    by (simp add: state_at_index_def c_def)
  from store init rewind state show ?thesis
    by (intro exI [of _ h] exI [of _ c] exI [of _ ?r]) simp
qed

text \<open>The theorem in the environment of the concrete runs.\<close>

theorem rewind_hello_first_call_witness:
  "6 < Z_HISTORY_METADATA_STATE_BLOCK_SIZE example_env
   \<and> realloc_succeeds example_env 16
   \<and> (\<exists>h c r.
        store_z_ucs_output_in_history example_env 100
          (create_outputhistory 0 64 16 9 2 1 0) (Some text_hello) = Inr h
      \<and> init_history_output h False False fresh_output = Some c
      \<and> output_rewind_paragraph example_env 100 h c = Inr r
      \<and> return_value r = 0
      \<and> char_count_written r = Some 0
      \<and> rewound_paragraph_was_newline_terminated (output_after r)
      \<and> state_at_index (output_after r) = (1, 0, 9, 2))"
proof -
  have block: "6 < Z_HISTORY_METADATA_STATE_BLOCK_SIZE example_env"
    by (simp add: example_env_def)
  have realloc: "realloc_succeeds example_env 16"
    by (simp add: example_env_def)
  show ?thesis
    using rewind_hello_first_call [OF block realloc, of 100 0 9 2 1 0 False fresh_output]
      block realloc
    by simp
qed

text \<open>C8 as stated fails: the character count of the first call is not 5.\<close>

theorem rewind_hello_char_count_counterexample:
  "map_sum id char_count_written rewind_hello \<noteq> Inr (Some 5)"
  by code_simp

subsection \<open>The return value of \<open>output_repeat_paragraphs\<close>\<close>

text \<open>
  Whatever lies in the buffer, a value that the loop returns is between 0 and \<open>n\<close>.
\<close>

lemma repeat_iteration_count:
  assumes "repeat_iteration E h im c p buf t n = Inr s"
  shows "case s of Break n' _ _ \<Rightarrow> n - 1 \<le> n' \<and> n' \<le> n
                 | Continue _ _ _ _ n' \<Rightarrow> 1 \<le> n' \<and> n' \<le> n"
  using assms
  by (auto simp: repeat_iteration_def Let_def
           split: sum.splits if_splits repeat_step.splits prod.splits)

lemma repeat_loop_count:
  "repeat_loop E fuel h im c p buf t n = Inr (r, p', c') \<Longrightarrow> 0 \<le> n \<Longrightarrow> 0 \<le> r \<and> r \<le> n"
proof (induction fuel arbitrary: c p buf t n)
  case 0
  then show ?case by (simp split: if_splits)
next
  case (Suc fuel)
  show ?case
  proof (cases "n \<le> 0")
    case True
    with Suc.prems show ?thesis by simp
  next
    case False
    from Suc.prems(1) False obtain s where
      it: "repeat_iteration E h im c p buf t n = Inr s"
      by (auto split: sum.splits)
    show ?thesis
    proof (cases s)
      case (Break n' q d)
      with Suc.prems(1) False it have "r = n'" by simp
      with repeat_iteration_count [OF it] Break False show ?thesis by simp
    next
      case (Continue d q buf' t' n')
      with Suc.prems(1) False it
      have loop: "repeat_loop E fuel h im d q buf' t' n' = Inr (r, p', c')" by simp
      from repeat_iteration_count [OF it] Continue have n': "1 \<le> n'" "n' \<le> n" by simp_all
      from Suc.IH [OF loop] n' show ?thesis by simp
    qed
  qed
qed













lemma repeat_iteration_text:
  assumes "p \<noteq> z_history_buffer_front_index h" and "peek h p = Inr ch"
    and "ch \<noteq> HISTORY_METADATA_ESCAPE"
    and "n1 = (if ch = Z_UCS_NEWLINE then n - 1 else n)" and "1 \<le> n1"
  shows "repeat_iteration E h im c p buf (- 1) n =
     Inr (if length buf = REPEAT_PARAGRAPH_BUF_SIZE - 1
          then Continue (call_target c (Z_ucs_output (takeWhile (\<lambda>u. u \<noteq> 0) buf)))
                 (increment_index h p) [ch] (- 1) n1
          else Continue c (increment_index h p) (buf @ [ch]) (- 1) n1)"
  using assms by (simp add: repeat_iteration_def Let_def)















text \<open>
  What the amended statement leaves out. The loop looks for the front among the pointers
  from the buffer start to the buffer end only, and it reads the character at the
  pointer, and counts it if it is a newline, before it compares the pointer with the
  front.

  In a history that is full and has not wrapped, the front is one behind the buffer end;
  the loop never meets it, and where the buffer holds no newline and no escape, it does
  not end, whatever the fuel is.
\<close>

lemma repeat_loop_front_beyond_end:
  assumes front: "z_history_buffer_front_index h = z_history_buffer_end h + 1"
    and cells: "\<forall>q. 0 \<le> q \<and> q \<le> z_history_buffer_end h \<longrightarrow>
                  (\<exists>ch. peek h q = Inr ch \<and> ch \<noteq> HISTORY_METADATA_ESCAPE
                        \<and> ch \<noteq> Z_UCS_NEWLINE)"
  shows "0 \<le> p \<Longrightarrow> p \<le> z_history_buffer_end h \<Longrightarrow> 1 \<le> n \<Longrightarrow>
         repeat_loop E fuel h im c p buf (- 1) n = Inl Out_of_fuel"
proof (induction fuel arbitrary: p c buf)
  case 0
  then show ?case by simp
next
  case (Suc fuel)
  from cells Suc.prems(1,2) obtain ch where
    ch: "peek h p = Inr ch" "ch \<noteq> HISTORY_METADATA_ESCAPE" "ch \<noteq> Z_UCS_NEWLINE"
    by blast
  from front Suc.prems(2) have away: "p \<noteq> z_history_buffer_front_index h"
    by simp
  have n1: "n = (if ch = Z_UCS_NEWLINE then n - 1 else n)"
    using ch(3) by simp
  note iter = repeat_iteration_text [OF away ch(1) ch(2) n1 Suc.prems(3), of E im c buf]
  from Suc.prems(1,2) have inside: "0 \<le> increment_index h p"
    "increment_index h p \<le> z_history_buffer_end h"
    by (auto simp: increment_index_def)
  from Suc.prems(3) show ?case
    by (simp add: iter Suc.IH [OF inside Suc.prems(3)])
qed

lemma repeat_full_never_returns:
  assumes "1 \<le> n"
  shows "output_repeat_paragraphs example_env fuel state_full cursor_full n False advance
           = Inl Out_of_fuel"
proof -
  have run: "history_full = Inr state_full" "cursor_rewound state_full 1 = Inr cursor_full"
    by code_simp+
  have valid: "validate_outputhistory state_full cursor_full = Inr ()"
    and enabled: "\<not> validation_disabled cursor_full"
    and at: "current_paragraph_index cursor_full = 7"
    and front: "z_history_buffer_front_index state_full = 8"
    and buffer_end: "z_history_buffer_end state_full = 7"
    by code_simp+
  have "list_all (\<lambda>q. case peek state_full q of Inl _ \<Rightarrow> False
          | Inr ch \<Rightarrow> ch \<noteq> HISTORY_METADATA_ESCAPE \<and> ch \<noteq> Z_UCS_NEWLINE) [0 .. 7]"
    by code_simp
  then have each: "\<forall>q \<in> {0 .. 7}. case peek state_full q of Inl _ \<Rightarrow> False
          | Inr ch \<Rightarrow> ch \<noteq> HISTORY_METADATA_ESCAPE \<and> ch \<noteq> Z_UCS_NEWLINE"
    by (simp add: list_all_iff)
  have cells: "\<forall>q. 0 \<le> q \<and> q \<le> z_history_buffer_end state_full \<longrightarrow>
      (\<exists>ch. peek state_full q = Inr ch \<and> ch \<noteq> HISTORY_METADATA_ESCAPE
            \<and> ch \<noteq> Z_UCS_NEWLINE)"
  proof (intro allI impI)
    fix q :: int
    assume "0 \<le> q \<and> q \<le> z_history_buffer_end state_full"
    then have "q \<in> {0 .. 7}" by (simp add: buffer_end)
    with each have "case peek state_full q of Inl _ \<Rightarrow> False
          | Inr ch \<Rightarrow> ch \<noteq> HISTORY_METADATA_ESCAPE \<and> ch \<noteq> Z_UCS_NEWLINE"
      by blast
    then show "\<exists>ch. peek state_full q = Inr ch \<and> ch \<noteq> HISTORY_METADATA_ESCAPE
            \<and> ch \<noteq> Z_UCS_NEWLINE"
      by (cases "peek state_full q") auto
  qed
  have front': "z_history_buffer_front_index state_full = z_history_buffer_end state_full + 1"
    by (simp add: front buffer_end)
  have "repeat_loop example_env fuel state_full False d 7 [] (- 1) n = Inl Out_of_fuel" for d
    by (rule repeat_loop_front_beyond_end [OF front' cells _ _ assms]) (simp_all add: buffer_end)
  then show ?thesis
    by (simp add: output_repeat_paragraphs_def valid at front)
qed

text \<open>
  With the paragraphs \<open>abc\<close> and \<open>def\<close> in such a history, the cursor at the
  \<open>d\<close> has one paragraph in front of it. Asked for three, the call goes on behind the
  buffer end at the buffer start, sends \<open>def\<close>, \<open>abc\<close> and \<open>def\<close> again, and
  returns 0.
\<close>

lemma repeat_full_paragraphs_run:
  "map_sum id (z_history_buffer_front_index) history_full_paragraphs = Inr 8
   \<and> map_sum id (z_history_buffer_end) history_full_paragraphs = Inr 7
   \<and> and_then history_full_paragraphs
        (\<lambda>h. map_sum id current_paragraph_index (cursor_rewound h 2)) = Inr 4
   \<and> map_sum id (\<lambda>(r, c). (r, texts_sent c)) repeat_full_paragraphs
       = Inr (0, [100, 101, 102, 10, 97, 98, 99, 10, 100, 101, 102])"
  by code_simp

text \<open>
  Where the character that is read at the front is a newline (one that has been removed,
  or one of the text that the history has dropped), it is counted as the end of a
  paragraph: in the history of scenario 1 with the newline removed, the cursor at the
  \<open>o\<close> has no paragraph that ends before the front. Asked for two, the call sends
  \<open>o\<close> and returns 1.
\<close>

lemma repeat_newline_removed_run:
  "map_sum id (\<lambda>h. peek h (z_history_buffer_front_index h)) history_newline_removed
     = Inr (Inr Z_UCS_NEWLINE)
   \<and> and_then history_newline_removed
        (\<lambda>h. map_sum id current_paragraph_index (cursor_rewound h 1)) = Inr 4
   \<and> map_sum id z_history_buffer_front_index history_newline_removed = Inr 5
   \<and> map_sum id (\<lambda>(r, c). (r, texts_sent c)) repeat_newline_removed = Inr (1, [111])"
  by code_simp

subsection \<open>\<open>remove_chars_from_history\<close>\<close>

text \<open>
  The loop counts every code unit that is not an escape met after other data, also the
  parameters and the type of a record: where no such escape is among the \<open>n\<close> code
  units behind the pointer, it ends \<open>n\<close> code units further back.
\<close>

lemma back_steps_linear:
  "nof_wraparounds h = 0 \<Longrightarrow> back_steps h k ptr w = Some (p, w') \<Longrightarrow>
   p = ptr - int k \<and> w' = w"
proof (induction k arbitrary: ptr w)
  case 0
  then show ?case by simp
next
  case (Suc k)
  from Suc.prems(2) obtain q v where
    dec: "decrement_buffer_pointer h ptr w = (Some q, v)"
    and rest: "back_steps h k q v = Some (p, w')"
    by (auto split: prod.splits option.splits)
  from dec Suc.prems(1) have "q = ptr - 1 \<and> v = w"
    by (auto simp: decrement_buffer_pointer_def split: if_splits)
  with Suc.IH [OF Suc.prems(1) rest] show ?case by simp
qed

lemma remove_chars_loop_exact:
  assumes "remove_chars_loop E fuel h ptr w last_data n = Inr (Some (p, w'))"
    and "\<forall>k q v. k < nat n \<longrightarrow> back_steps h (Suc k) ptr w = Some (q, v) \<longrightarrow>
           peek h q \<noteq> Inr HISTORY_METADATA_ESCAPE"
  shows "back_steps h (nat n) ptr w = Some (p, w')"
  using assms
proof (induction fuel arbitrary: ptr w last_data n)
  case 0
  then show ?case by (simp split: if_splits)
next
  case (Suc fuel)
  show ?case
  proof (cases "n \<le> 0")
    case True
    with Suc.prems(1) show ?thesis by simp
  next
    case False
    then have n: "nat n = Suc (nat (n - 1))" by simp
    from Suc.prems(1) False obtain q v c where
      dec: "decrement_buffer_pointer h ptr w = (Some q, v)"
      and pk: "peek h q = Inr c"
      by (auto split: prod.splits option.splits sum.splits)
    have one: "back_steps h (Suc 0) ptr w = Some (q, v)"
      using dec by simp
    from Suc.prems(2) [rule_format, of 0 q v] one False pk
    have c: "c \<noteq> HISTORY_METADATA_ESCAPE" by simp
    from Suc.prems(1) False dec pk c
    have loop: "remove_chars_loop E fuel h q v c (n - 1) = Inr (Some (p, w'))"
      by simp
    have hyp: "\<forall>k q' v'. k < nat (n - 1) \<longrightarrow> back_steps h (Suc k) q v = Some (q', v') \<longrightarrow>
           peek h q' \<noteq> Inr HISTORY_METADATA_ESCAPE"
    proof (intro allI impI)
      fix k q' v'
      assume k: "k < nat (n - 1)" and b: "back_steps h (Suc k) q v = Some (q', v')"
      from b dec have "back_steps h (Suc (Suc k)) ptr w = Some (q', v')" by simp
      moreover from k n have "Suc k < nat n" by simp
      ultimately show "peek h q' \<noteq> Inr HISTORY_METADATA_ESCAPE"
        using Suc.prems(2) by blast
    qed
    from Suc.IH [OF loop hyp] have "back_steps h (nat (n - 1)) q v = Some (p, w')" .
    with dec n show ?thesis by simp
  qed
qed

text \<open>
  What the escape of a record does to the count: the step onto it does not reduce the
  count, and the width of a record of the type last seen is added.
\<close>

lemma remove_chars_loop_escape_step:
  assumes "decrement_buffer_pointer h ptr w = (Some q, v)"
    and "peek h q = Inr HISTORY_METADATA_ESCAPE" and "last_data \<noteq> 0" and "0 < n"
  shows "remove_chars_loop E (Suc fuel) h ptr w last_data n =
         remove_chars_loop E fuel h q v last_data
           (n + (if last_data = ucs_of_int (HISTORY_METADATA_TYPE_COLOUR E)
                    \<or> last_data = ucs_of_int (HISTORY_METADATA_TYPE_PARAGRAPHATTRIBUTE E)
                 then 4 else 3))"
  using assms by simp

text \<open>
  A font or style record behind the pointer, that is, a parameter, a type and the escape:
  the parameter and the type are counted like text, and then the width 3 is added, so
  that behind the record there is one character more to remove than there was in front
  of it. With a count of 2 the loop ends at the type, inside the record.
\<close>

lemma remove_chars_loop_across_record:
  assumes "decrement_buffer_pointer h ptr w = (Some q1, w1)"
    and "peek h q1 = Inr v" and "v \<noteq> HISTORY_METADATA_ESCAPE"
    and "decrement_buffer_pointer h q1 w1 = (Some q2, w2)"
    and "peek h q2 = Inr t" and "t \<noteq> HISTORY_METADATA_ESCAPE"
    and "decrement_buffer_pointer h q2 w2 = (Some q3, w3)"
    and "peek h q3 = Inr HISTORY_METADATA_ESCAPE"
    and "t \<noteq> ucs_of_int (HISTORY_METADATA_TYPE_COLOUR E)"
    and "t \<noteq> ucs_of_int (HISTORY_METADATA_TYPE_PARAGRAPHATTRIBUTE E)"
    and "2 < n"
  shows "remove_chars_loop E (Suc (Suc (Suc fuel))) h ptr w last_data n
           = remove_chars_loop E fuel h q3 w3 t (n + 1)"
  using assms by (simp add: HISTORY_METADATA_ESCAPE_def add.commute)

lemma remove_chars_loop_inside_record:
  assumes "decrement_buffer_pointer h ptr w = (Some q1, w1)"
    and "peek h q1 = Inr v" and "v \<noteq> HISTORY_METADATA_ESCAPE"
    and "decrement_buffer_pointer h q1 w1 = (Some q2, w2)"
    and "peek h q2 = Inr t" and "t \<noteq> HISTORY_METADATA_ESCAPE"
  shows "remove_chars_loop E (Suc (Suc fuel)) h ptr w last_data 2 = Inr (Some (q2, w2))"
  using assms by (cases fuel) simp_all

text \<open>
  A font record and the text \<open>b\<close> are in the history, the front is at 4. Three
  characters are removed: the call returns 0 with the front at 1, at the type of the
  record. The text \<open>x\<close> stored next replaces the type, and the record is lost.
\<close>

lemma remove_chars_ends_inside_font_record:
  "map_sum id (\<lambda>h. (take 4 (z_history_buffer h), z_history_buffer_front_index h))
     history_font_b = Inr ([0, 1, 15, 98], 4)
   \<and> map_sum id (\<lambda>(r, h). (r, take 4 (z_history_buffer h), z_history_buffer_front_index h))
       history_font_b_removed = Inr (0, [0, 1, 15, 98], 1)
   \<and> map_sum id (\<lambda>h. (take 4 (z_history_buffer h), z_history_buffer_front_index h))
       history_font_b_overwritten = Inr ([0, 120, 15, 98], 2)"
  by code_simp

text \<open>
  C6, the code where the walk back crosses a record: the text \<open>wxyz\<close>, a font record
  and the text \<open>b\<close> are in the history, the front is at 8. Four characters are
  removed, and the call returns 0. By the claim the front is then at 1, behind the
  \<open>w\<close>: the four characters \<open>b\<close>, \<open>z\<close>, \<open>y\<close> and \<open>x\<close> and the record lie
  between it and the old front. The code puts the front at 0: five characters and the
  record lie between the new front and the old one, and five have to be written, with
  the record, to bring the front back.
\<close>

theorem remove_chars_across_font_record:
  "map_sum id z_history_buffer_front_index history_font = Inr 8
   \<and> map_sum id (take 8 \<circ> z_history_buffer) history_font
       = Inr [119, 120, 121, 122, 0, 1, 15, 98]
   \<and> map_sum id fst history_font_removed = Inr 0
   \<and> map_sum id (z_history_buffer_front_index \<circ> snd) history_font_removed = Inr 0
   \<and> map_sum id (\<lambda>h. laid_out example_env h 0
         [Text 119, Text 120, Text 121, Text 122, Font_record 15, Text 98])
       history_font = Inr True
   \<and> map_sum id (\<lambda>h. laid_out example_env h 1
         [Text 120, Text 121, Text 122, Font_record 15, Text 98])
       history_font = Inr True"
  by code_simp

subsection \<open>The space used\<close>

text \<open>
  In a history that has not wrapped, \<open>get_buffer_space_used\<close> is the distance from
  the back to the front and one more.
\<close>

lemma get_buffer_space_used_linear:
  assumes "z_history_buffer_size h \<noteq> 0" and "nof_wraparounds h = 0"
    and "z_history_buffer_back_index h \<le> z_history_buffer_front_index h"
    and "z_history_buffer_front_index h < 2 ^ 63"
    and "0 \<le> z_history_buffer_back_index h"
  shows "get_buffer_space_used h
     = z_history_buffer_front_index h - z_history_buffer_back_index h + 1"
  using assms by (simp add: get_buffer_space_used_def size_t_of_int_def)

text \<open>
  C4, the code at scenario 1 of the spec: after \<open>store_text\<close> of \<open>Hello\<close> with
  its newline into the new history, the history has not wrapped, the front is at 6 and
  the back at 0, and \<open>get_buffer_space_used\<close> returns 7, one more than the six code
  units stored.
\<close>

theorem space_used_after_hello:
  "map_sum id get_buffer_space_used history_hello = Inr 7
   \<and> map_sum id nof_wraparounds history_hello = Inr 0
   \<and> map_sum id z_history_buffer_front_index history_hello = Inr 6
   \<and> map_sum id z_history_buffer_back_index history_hello = Inr 0"
  by code_simp

subsection \<open>The state at the front\<close>

lemma undrained_updates:
  "undrained (h\<lparr>next_newline_after_buffer_back := v\<rparr>) = undrained h"
  "undrained (h\<lparr>history_buffer_back_index_font := a\<rparr>) = undrained h"
  "undrained (h\<lparr>history_buffer_back_index_style := a\<rparr>) = undrained h"
  "undrained (h\<lparr>history_buffer_back_index_foreground := a,
      history_buffer_back_index_background := b\<rparr>) = undrained h"
  "undrained (call_paragraph_removal_function h b1 b2) = undrained h"
  by (simp_all add: undrained_def front_state_def call_paragraph_removal_function_def)

lemma process_buffer_back_escape_undrained:
  "process_buffer_back_escape E h i n = Inr (h', i', n') \<Longrightarrow> undrained h' = undrained h"
  by (auto simp: process_buffer_back_escape_def Let_def undrained_updates
           split: sum.splits if_splits)

lemma process_buffer_back_loop_undrained:
  "process_buffer_back_loop E fuel h i n = Inr (h', i') \<Longrightarrow> undrained h' = undrained h"
proof (induction fuel arbitrary: h i n)
  case 0
  then show ?case by simp
next
  case (Suc fuel)
  let ?h1 = "if next_newline_after_buffer_back h = Some i
             then h\<lparr>next_newline_after_buffer_back := None\<rparr> else h"
  have h1: "undrained ?h1 = undrained h" by (simp add: undrained_updates)
  from Suc.prems obtain c where pk: "peek ?h1 i = Inr c"
    by (auto simp: Let_def split: sum.splits)
  from Suc.prems pk obtain h2 j m where
    step: "(if c = HISTORY_METADATA_ESCAPE then process_buffer_back_escape E ?h1 i n
            else Inr (?h1, i, n)) = Inr (h2, j, m)"
    and rest: "(if m - 1 > 0 then process_buffer_back_loop E fuel h2 (next_index h2 j) (m - 1)
                else Inr (h2, next_index h2 j)) = Inr (h', i')"
    by (simp add: Let_def split: sum.splits prod.splits)
  from step have "undrained h2 = undrained ?h1"
    by (auto dest: process_buffer_back_escape_undrained split: if_splits)
  moreover from rest have "undrained h' = undrained h2"
    by (auto dest: Suc.IH split: if_splits)
  ultimately show ?case using h1 by simp
qed

lemma process_buffer_back_newline_loop_undrained:
  "process_buffer_back_newline_loop E fuel h i = Inr (h', i') \<Longrightarrow>
   undrained h' = undrained h"
proof (induction fuel arbitrary: h i)
  case 0
  then show ?case by simp
next
  case (Suc fuel)
  from Suc.prems show ?case
    by (auto simp: Let_def undrained_updates split: sum.splits if_splits dest!: Suc.IH)
qed

lemma process_buffer_back_undrained:
  assumes "process_buffer_back E fuel h n = Inr h'"
  shows "undrained h' = undrained h"
proof -
  from assms obtain h1 i where
    loop: "process_buffer_back_loop E fuel h (z_history_buffer_front_index h) n = Inr (h1, i)"
    by (auto simp: process_buffer_back_def split: sum.splits)
  from assms loop have "undrained h' = undrained h1"
    by (auto simp: process_buffer_back_def undrained_updates split: sum.splits if_splits
             dest!: process_buffer_back_newline_loop_undrained)
  with process_buffer_back_loop_undrained [OF loop] show ?thesis by simp
qed

lemma process_buffer_back_front_state:
  "process_buffer_back E fuel h n = Inr h' \<Longrightarrow> front_state h' = front_state h"
  by (drule process_buffer_back_undrained) (simp add: undrained_def)

lemma z_ucs_ncpy_front_state:
  "z_ucs_ncpy h dst src off n = Inr h' \<Longrightarrow> front_state h' = front_state h"
  by (auto simp: z_ucs_ncpy_def front_state_def split: if_splits)

lemma memcpy_to_start_front_state:
  "memcpy_to_start E h src n = Inr h' \<Longrightarrow> front_state h' = front_state h"
  by (auto simp: memcpy_to_start_def Let_def front_state_def split: if_splits)

lemma try_to_enlarge_buffer_front_state:
  "front_state (try_to_enlarge_buffer E h n) = front_state h"
  by (simp add: try_to_enlarge_buffer_def front_state_def)

lemma store_data_wrap_loop_front_state:
  "store_data_wrap_loop E fuel h src off len = Inr h' \<Longrightarrow> front_state h' = front_state h"
proof (induction fuel arbitrary: h off len)
  case 0
  then show ?case by (simp split: if_splits)
next
  case (Suc fuel)
  show ?case
  proof (cases "len \<le> 0")
    case True
    with Suc.prems show ?thesis by simp
  next
    case False
    define ltw where "ltw =
      (if z_history_buffer_front_index h + len - 1 > z_history_buffer_end h
       then size_t_of_int (z_history_buffer_end h - z_history_buffer_front_index h + 1)
       else len)"
    from Suc.prems False obtain h1 where
      pbb: "process_buffer_back E fuel h (long_of_size_t ltw) = Inr h1"
      by (auto simp: Let_def ltw_def split: sum.splits)
    from Suc.prems False pbb obtain h2 where
      cpy: "z_ucs_ncpy h1 (z_history_buffer_front_index h1) src off ltw = Inr h2"
      by (auto simp: Let_def ltw_def split: sum.splits)
    from Suc.prems False pbb cpy obtain g o' l' where
      rest: "store_data_wrap_loop E fuel g src o' l' = Inr h'"
      and g: "front_state g = front_state h2"
      by (auto simp: Let_def ltw_def front_state_def split: sum.splits)
    from Suc.IH [OF rest] g z_ucs_ncpy_front_state [OF cpy]
      process_buffer_back_front_state [OF pbb]
    show ?thesis by simp
  qed
qed


lemma store_data_single_block_front_state:
  assumes "store_data_single_block E fuel h src len = Inr h'"
  shows "front_state h' = front_state h"
proof -
  let ?grow = "\<lambda>h1 :: OUTPUTHISTORY. if z_history_buffer_size h1 < z_history_maximum_buffer_size h1
       then try_to_enlarge_buffer E h1 (z_history_maximum_buffer_size h1) else h1"
  from assms obtain h1 h3 where
    pbb: "process_buffer_back E fuel h (long_of_size_t (get_buffer_space_used h)) = Inr h1"
    and cpy: "memcpy_to_start E (?grow h1) src
        (len - z_history_maximum_buffer_size (?grow h1)) = Inr h3"
    and h': "h' = h3\<lparr>z_history_buffer_front_index := 0,
        z_history_buffer_back_index := z_history_buffer_end h3\<rparr>"
    by (auto simp: store_data_single_block_def Let_def split: sum.splits)
  have "front_state (?grow h1) = front_state h1"
    by (simp add: try_to_enlarge_buffer_front_state)
  with memcpy_to_start_front_state [OF cpy] process_buffer_back_front_state [OF pbb] h'
  show ?thesis by (simp add: front_state_def)
qed

lemma store_data_enlarge_front_state:
  "store_data_enlarge E h len = Inr h' \<Longrightarrow> front_state h' = front_state h"
  by (auto simp: store_data_enlarge_def Let_def try_to_enlarge_buffer_front_state
           split: if_splits)

lemma store_data_regular_front_state:
  assumes "store_data_regular E fuel h src off len = Inr h'"
  shows "front_state h' = front_state h"
proof -
  have upd: "\<And>g a. front_state (g\<lparr>z_history_buffer_front_index := a\<rparr>) = front_state g"
    "\<And>g b. front_state (g\<lparr>nof_wraparounds := b\<rparr>) = front_state g"
    by (simp_all add: front_state_def)
  from assms show ?thesis
    by (auto simp: store_data_regular_def Let_def upd split: sum.splits if_splits
             dest!: store_data_wrap_loop_front_state z_ucs_ncpy_front_state)
qed

lemma store_data_in_history_body_front_state:
  "store_data_in_history_body E fuel h data len = Inr h' \<Longrightarrow> front_state h' = front_state h"
  by (auto simp: store_data_in_history_body_def
           split: option.splits sum.splits if_splits
           dest!: store_data_single_block_front_state store_data_enlarge_front_state
                  store_data_regular_front_state)

text \<open>
  For every history and every pair of colours in range, a call of
  \<open>store_metadata_in_history\<close> for COLOUR that returns has set the foreground at the
  front to the first parameter and has left the font, the style and the background at
  the front as they were.
\<close>

lemma store_colour_front_state:
  assumes "store_metadata_in_history E fuel h (HISTORY_METADATA_TYPE_COLOUR E) fg bg
      = Inr (r, h')"
    and "HISTORY_METADATA_TYPE_COLOUR E \<noteq> HISTORY_METADATA_TYPE_FONT E"
    and "HISTORY_METADATA_TYPE_COLOUR E \<noteq> HISTORY_METADATA_TYPE_STYLE E"
  shows "front_state h' =
     (history_buffer_front_index_font h, history_buffer_front_index_style h,
      int16_of_int fg, history_buffer_front_index_background h)"
proof -
  from assms have body: "store_data_in_history_body E fuel
       (h\<lparr>history_buffer_front_index_foreground := int16_of_int fg\<rparr>)
       (Some [HISTORY_METADATA_ESCAPE, ucs_of_int (HISTORY_METADATA_TYPE_COLOUR E),
              ucs_of_int (int16_of_int fg + HISTORY_METADATA_DATA_OFFSET),
              ucs_of_int (int16_of_int bg + HISTORY_METADATA_DATA_OFFSET)]) 4 = Inr h'"
    by (auto simp: store_metadata_in_history_def Let_def split: if_splits sum.splits)
  from store_data_in_history_body_front_state [OF body] show ?thesis
    by (simp add: front_state_def)
qed

text \<open>
  C2, the code at a colour record with both parameters in range: a new white-on-black
  history (9 on 2) takes the record (4, 6); the foreground at the front becomes 4, the
  background at the front stays 2.
\<close>

theorem store_colour_keeps_front_background:
  "map_sum id (front_state \<circ> snd) history_colour = Inr (1, 0, 4, 2)"
  by code_simp

subsection \<open>An input of at least the maximum buffer size\<close>

text \<open>
  What the branch for an input of at least the maximum buffer size does, whenever it
  returns: the front is at the buffer start, the back at the buffer end, and the number
  of wrap-arounds is what it was.
\<close>

lemma store_data_single_block_indices:
  assumes "store_data_single_block E fuel h src len = Inr h'"
  shows "z_history_buffer_front_index h' = 0
    \<and> z_history_buffer_back_index h' = z_history_buffer_end h'
    \<and> nof_wraparounds h' = nof_wraparounds h"
proof -
  let ?grow = "\<lambda>h1 :: OUTPUTHISTORY. if z_history_buffer_size h1 < z_history_maximum_buffer_size h1
       then try_to_enlarge_buffer E h1 (z_history_maximum_buffer_size h1) else h1"
  from assms obtain h1 h3 where
    pbb: "process_buffer_back E fuel h (long_of_size_t (get_buffer_space_used h)) = Inr h1"
    and cpy: "memcpy_to_start E (?grow h1) src
        (len - z_history_maximum_buffer_size (?grow h1)) = Inr h3"
    and h': "h' = h3\<lparr>z_history_buffer_front_index := 0,
        z_history_buffer_back_index := z_history_buffer_end h3\<rparr>"
    by (auto simp: store_data_single_block_def Let_def split: sum.splits)
  from cpy have "nof_wraparounds h3 = nof_wraparounds (?grow h1)"
    by (auto simp: memcpy_to_start_def Let_def split: if_splits)
  moreover have "nof_wraparounds (?grow h1) = nof_wraparounds h1"
    by (simp add: try_to_enlarge_buffer_def)
  moreover from process_buffer_back_undrained [OF pbb]
  have "nof_wraparounds h1 = nof_wraparounds h"
    by (simp add: undrained_def)
  ultimately show ?thesis using h' by simp
qed

lemma history_wrapped_summary:
  "map_sum id history_summary history_wrapped
     = Inr ([103, 104, 10, 10, 100, 101, 102, 10, 0], 3, 3, 1)"
  by code_simp

text \<open>
  C1, the code at an input of exactly the maximum buffer size: the wrapped history
  (buffer \<open>gh\<close>, two newlines, \<open>def\<close>, newline, and the guard cell; front and
  back at 3; one wrap-around) is given the eight characters \<open>ABCDEFGH\<close>. The buffer keeps its old
  content, the front is at the buffer start, the back at the buffer end, and the number
  of wrap-arounds is still 1.
\<close>

theorem store_data_of_maximum_size:
  "map_sum id history_summary history_overfull
     = Inr ([103, 104, 10, 10, 100, 101, 102, 10, 0], 0, 7, 1)"
  by code_simp

text \<open>
  With twelve characters for a history of at most eight code units that holds \<open>abc\<close>
  and a newline: \<open>len - Nmax\<close> is 4, and \<open>memcpy\<close> copies four bytes, the first
  code unit of the input. On a history that has not allocated yet the same branch reads
  through the NULL front index.
\<close>

lemma store_data_beyond_maximum_size:
  "map_sum id history_summary
     (and_then (store_z_ucs_output_in_history example_env 100
                  (create_outputhistory 0 8 8 9 2 1 0) (Some [97, 98, 99, 10]))
        (\<lambda>h. store_z_ucs_output_in_history example_env 100 h
                (Some [65, 66, 67, 68, 69, 70, 71, 72, 73, 74, 75, 76])))
     = Inr ([65, 98, 99, 10, 0, 0, 0, 0, 0], 0, 7, 0)"
  by code_simp

lemma unallocated_history_null_front:
  "store_z_ucs_output_in_history example_env 100 (create_outputhistory 0 8 8 9 2 1 0)
     (Some [65, 66, 67, 68, 69, 70, 71, 72]) = Inl Out_of_bounds"
  by code_simp

subsection \<open>Remember and restore\<close>

text \<open>
  What \<open>restore_history_output_position\<close> does to the fields of the cursor: all of
  them come from the saved slot, except the number of wrap-arounds, which stays.
\<close>

lemma restore_history_output_position_fields:
  assumes "restore_history_output_position h c = Inr c'"
  shows "output_nof_wraparounds c' = output_nof_wraparounds c
    \<and> current_paragraph_index c' = saved_current_paragraph_index c
    \<and> found_end_of_buffer c' = saved_found_end_of_buffer c
    \<and> first_iteration_done c' = saved_first_iteration_done c
    \<and> rewound_paragraph_was_newline_terminated c'
        = saved_rewound_paragraph_was_newline_terminated c
    \<and> metadata_at_index_evaluated c' = saved_metadata_at_index_evaluated c
    \<and> state_at_index c'
        = (saved_font_at_index c, saved_style_at_index c, saved_foreground_at_index c,
           saved_background_at_index c)
    \<and> last_rewinded_paragraphs_block_index c' = saved_last_rewinded_paragraphs_block_index c
    \<and> last_used_metadata_state_font c' = saved_last_used_metadata_state_font c
    \<and> last_used_metadata_state_style c' = saved_last_used_metadata_state_style c
    \<and> last_used_metadata_state_foreground c' = saved_last_used_metadata_state_foreground c
    \<and> last_used_metadata_state_background c' = saved_last_used_metadata_state_background c"
  using assms
  by (auto simp: restore_history_output_position_def state_at_index_def split: sum.splits)

text \<open>
  C3, the code on the wrapped history: the cursor remembers its position at index 0 with
  0 wrap-arounds, rewinds across the buffer start (which takes its number of wrap-arounds
  to \<open>2\<^sup>3\<^sup>2 - 1\<close>), and restores: the index is 0 again, the number of wrap-arounds
  is not.
\<close>

theorem restore_keeps_nof_wraparounds:
  "map_sum id output_nof_wraparounds cursor_remembered = Inr 0
   \<and> map_sum id current_paragraph_index cursor_remembered = Inr 0
   \<and> map_sum id output_nof_wraparounds cursor_restored = Inr 4294967295
   \<and> map_sum id current_paragraph_index cursor_restored = Inr 0"
  by code_simp

subsection \<open>The state at a paragraph start\<close>

text \<open>
  Where the walk back hits the end of the live region with nothing resolved, the font
  and the style come from the state at the back, the foreground and the background from
  the state at the front.
\<close>

lemma evaluate_metadata_loop_hit_end:
  assumes "decrement_buffer_pointer h index w = (None, w')"
    and "font_at_index c = - 1" and "style_at_index c = - 1"
    and "foreground_at_index c = Z_COLOUR_UNDEFINED"
    and "background_at_index c = Z_COLOUR_UNDEFINED"
  shows "map_sum id state_at_index (evaluate_metadata_loop E (Suc fuel) h c index i2 i3 w)
     = Inr (history_buffer_back_index_font h, history_buffer_back_index_style h,
            history_buffer_front_index_foreground h, history_buffer_front_index_background h)"
  using assms by (simp add: Let_def state_at_index_def)

text \<open>
  C5, the code where the walk back hits the end: the text \<open>A\<close>, a newline and a
  colour record (4, 6) are in a white-on-black history, so that the foreground is 9 at
  the back and 4 at the front. The rewind places the cursor at index 2, before the
  record; the foreground evaluated there is 4.
\<close>

theorem fallback_foreground_from_front:
  "map_sum id back_state history_a_colour = Inr (1, 0, 9, 2)
   \<and> map_sum id front_state history_a_colour = Inr (1, 0, 4, 2)
   \<and> map_sum id return_value rewind_a_colour = Inr 0
   \<and> map_sum id (current_paragraph_index \<circ> output_after) rewind_a_colour = Inr 2
   \<and> map_sum id (state_at_index \<circ> output_after) rewind_a_colour = Inr (1, 0, 4, 2)"
  by code_simp

end
